theory Spec2Isabelle
  imports Main "HOL-Library.AList"
begin

section \<open>Python values, truthiness and exceptions\<close>

text \<open>
  The runner (\<^verbatim>\<open>runner.py\<close>) is initialisation glue around an external module
  \<^verbatim>\<open>bot\<close> (imported as \<^verbatim>\<open>app\<close>) and the libraries aiogram and aiohttp.
  The embedding follows the two coroutines \<^verbatim>\<open>_build_bot\<close> and \<^verbatim>\<open>main\<close>
  statement by statement. Everything outside the file (what a library call returns or raises,
  the environment variables, the attributes of the external module) is an explicit input.
  The module-level and function-level \<^verbatim>\<open>import\<close> statements are taken to succeed:
  the model starts where the names they bind are available.

  Values that the runner tests for truthiness: the result of \<^verbatim>\<open>os.getenv\<close>
  (a string or \<^verbatim>\<open>None\<close>) and attributes of the external module.
\<close>

datatype pyval = PyNone | PyBool bool | PyInt int | PyStr string

fun truthy :: "pyval \<Rightarrow> bool" where
  "truthy PyNone = False"
| "truthy (PyBool b) = b"
| "truthy (PyInt n) = (n \<noteq> 0)"
| "truthy (PyStr s) = (s \<noteq> [])"

text \<open>Python's \<^verbatim>\<open>a or b\<close>: the first operand when it is truthy, else the second.\<close>

definition py_or :: "pyval \<Rightarrow> pyval \<Rightarrow> pyval" where
  "py_or a b = (if truthy a then a else b)"

text \<open>
  Exceptions carry their class and message. \<^verbatim>\<open>except Exception\<close> catches the
  classes that derive from \<^verbatim>\<open>Exception\<close>; \<^verbatim>\<open>KeyboardInterrupt\<close>,
  \<^verbatim>\<open>SystemExit\<close> and \<^verbatim>\<open>asyncio.CancelledError\<close> derive from
  \<^verbatim>\<open>BaseException\<close> only and pass through such a handler.
\<close>

datatype exn_class =
  RuntimeError | ValueError | TypeError | AttributeError | OSError
| KeyboardInterrupt | SystemExit | CancelledError

datatype exn = Exn exn_class string

fun is_Exception :: "exn \<Rightarrow> bool" where
  "is_Exception (Exn c msg) = (c \<noteq> KeyboardInterrupt \<and> c \<noteq> SystemExit \<and> c \<noteq> CancelledError)"

section \<open>The environment and \<^verbatim>\<open>int()\<close>\<close>

type_synonym environment = "string \<Rightarrow> string option"

text \<open>\<^verbatim>\<open>os.getenv(k)\<close> and \<^verbatim>\<open>os.getenv(k, default)\<close>.\<close>

definition getenv :: "environment \<Rightarrow> string \<Rightarrow> pyval" where
  "getenv env k = (case env k of None \<Rightarrow> PyNone | Some v \<Rightarrow> PyStr v)"

definition getenv_default :: "environment \<Rightarrow> string \<Rightarrow> string \<Rightarrow> string" where
  "getenv_default env k d = (case env k of None \<Rightarrow> d | Some v \<Rightarrow> v)"

text \<open>
  Strings: a \<open>char\<close> stands for a code point below 256 (ASCII and the Latin-1 supplement);
  code points from 256 on are outside the type.

  \<^verbatim>\<open>int(s)\<close>, base 10. Whitespace at both ends is skipped: the six ASCII characters
  space, \<^verbatim>\<open>\t\<close>, \<^verbatim>\<open>\n\<close>, \<^verbatim>\<open>\x0b\<close>, \<^verbatim>\<open>\x0c\<close>,
  \<^verbatim>\<open>\r\<close>, and the two whitespace code points of the Latin-1 supplement,
  \<^verbatim>\<open>\x85\<close> and \<^verbatim>\<open>\xa0\<close>. (The separators
  \<^verbatim>\<open>\x1c\<close> to \<^verbatim>\<open>\x1f\<close> are not skipped.) Then one sign is allowed,
  then decimal digits \<^verbatim>\<open>0\<close> to \<^verbatim>\<open>9\<close> with single underscores between
  digits. Anything else raises \<^verbatim>\<open>ValueError\<close>, and so does a literal of more than
  4300 digits (the interpreter's default limit on decimal strings).
\<close>

definition is_space :: "char \<Rightarrow> bool" where
  "is_space c = (c \<in> set [CHR '' '', CHR 0x09, CHR 0x0A, CHR 0x0B, CHR 0x0C, CHR 0x0D,
                             CHR 0x85, CHR 0xA0])"

definition strip :: "string \<Rightarrow> string" where
  "strip s = rev (dropWhile is_space (rev (dropWhile is_space s)))"

text \<open>The value of an ASCII decimal digit (code points 48 to 57).\<close>

definition digit_val :: "char \<Rightarrow> nat option" where
  "digit_val c =
     (let n = (of_char c :: nat) in if 48 \<le> n \<and> n \<le> 57 then Some (n - 48) else None)"

fun parse_digits :: "bool \<Rightarrow> nat \<Rightarrow> string \<Rightarrow> nat option" where
  "parse_digits after_digit acc [] = (if after_digit then Some acc else None)"
| "parse_digits after_digit acc (c # cs) =
     (if c = CHR ''_'' then (if after_digit then parse_digits False acc cs else None)
      else (case digit_val c of
              None \<Rightarrow> None
            | Some v \<Rightarrow> parse_digits True (10 * acc + v) cs))"

definition invalid_literal :: exn where
  "invalid_literal = Exn ValueError ''invalid literal for int() with base 10''"

definition exceeds_limit :: exn where
  "exceeds_limit = Exn ValueError ''Exceeds the limit (4300 digits) for integer string conversion''"

definition py_int :: "string \<Rightarrow> exn + int" where
  "py_int s =
     (case strip s of
        [] \<Rightarrow> Inl invalid_literal
      | c # cs \<Rightarrow>
          (let body = (if c = CHR ''-'' \<or> c = CHR ''+'' then cs else c # cs) in
           case parse_digits False 0 body of
             None \<Rightarrow> Inl invalid_literal
           | Some n \<Rightarrow>
               if 4300 < length (filter (\<lambda>d. d \<noteq> CHR ''_'') body) then Inl exceeds_limit
               else Inr (if c = CHR ''-'' then - int n else int n)))"

section \<open>Objects of aiohttp and aiogram\<close>

datatype address_family = AF_UNSPEC | AF_INET | AF_INET6

datatype tcp_connector = TCPConnector (family: address_family)

datatype kwval = KwConnector tcp_connector | KwBool bool

text \<open>Keyword arguments: a dict, in insertion order.\<close>

type_synonym kwargs = "(string \<times> kwval) list"

datatype aiohttp_session = AiohttpSession (session_kwargs: kwargs)

datatype aiogram_bot =
  Bot (bot_token: pyval) (bot_parse_mode: string) (bot_session: aiohttp_session)

subsection \<open>The health application\<close>

record request =
  req_method :: string
  req_path :: string

record response =
  resp_status :: nat
  resp_text :: string

type_synonym handler = "request \<Rightarrow> response"

text \<open>A route: method, path, handler.\<close>

type_synonym route = "string \<times> string \<times> handler"

text \<open>\<^verbatim>\<open>web.Response(text=...)\<close>: the status defaults to 200.\<close>

definition web_Response :: "string \<Rightarrow> response" where
  "web_Response t = \<lparr>resp_status = 200, resp_text = t\<rparr>"

text \<open>\<^verbatim>\<open>async def _health(_request): return web.Response(text="ok")\<close>\<close>

definition health :: handler where
  "health request = web_Response ''ok''"

text \<open>
  \<^verbatim>\<open>router.add_get(path, handler)\<close> registers the handler for \<^verbatim>\<open>GET\<close>
  and (aiohttp's default \<^verbatim>\<open>allow_head=True\<close>) for \<^verbatim>\<open>HEAD\<close>.
\<close>

definition add_get :: "string \<Rightarrow> handler \<Rightarrow> route list \<Rightarrow> route list" where
  "add_get path h routes = routes @ [(''HEAD'', path, h), (''GET'', path, h)]"

text \<open>Lines 72 to 78: the application with its two routes.\<close>

definition health_app :: "route list" where
  "health_app = add_get ''/health'' health (add_get ''/'' health [])"

text \<open>
  aiohttp's dispatch: the first route whose path and method equal the request's; a known
  path with another method is 405, an unknown path 404. A \<^verbatim>\<open>HEAD\<close> response is
  sent without its body.
\<close>

datatype resolution = Match handler | Method_not_allowed | Not_found

definition resolve :: "route list \<Rightarrow> request \<Rightarrow> resolution" where
  "resolve routes rq =
     (case find (\<lambda>r. fst (snd r) = req_path rq \<and> fst r = req_method rq) routes of
        Some r \<Rightarrow> Match (snd (snd r))
      | None \<Rightarrow>
          (case find (\<lambda>r. fst (snd r) = req_path rq) routes of
             Some r \<Rightarrow> Method_not_allowed
           | None \<Rightarrow> Not_found))"

definition serve :: "route list \<Rightarrow> request \<Rightarrow> response" where
  "serve routes rq =
     (case resolve routes rq of
        Match h \<Rightarrow>
          (if req_method rq = ''HEAD'' then (h rq)\<lparr>resp_text := []\<rparr> else h rq)
      | Method_not_allowed \<Rightarrow> \<lparr>resp_status = 405, resp_text = ''405: Method Not Allowed''\<rparr>
      | Not_found \<Rightarrow> \<lparr>resp_status = 404, resp_text = ''404: Not Found''\<rparr>)"

section \<open>The external module, the outside world and the trace of calls\<close>

text \<open>
  The attributes of the external module \<^verbatim>\<open>app\<close> that the runner reads or writes.
  \<open>None\<close> in \<open>attr_API_TOKEN\<close> and \<open>attr_KOYEB_ROUTER_INCLUDED\<close> means that the
  attribute is not defined; \<open>attr_bot = None\<close> means that \<^verbatim>\<open>app.bot\<close> is
  whatever the module defined itself. The module object outlives one invocation of
  \<^verbatim>\<open>main\<close>, so it is the state that is passed from one invocation to the next.
\<close>

record app_module =
  attr_API_TOKEN :: "pyval option"
  attr_bot :: "aiogram_bot option"
  attr_dp :: bool
  attr_router :: bool
  attr_on_startup :: bool
  attr_KOYEB_ROUTER_INCLUDED :: "pyval option"

text \<open>An awaited coroutine of a library completes, raises, or never completes.\<close>

datatype await_result = Completes | Fails exn | Never_completes

text \<open>
  What the outside world does during one invocation: the environment variables, and for
  every call into a library (each call site runs at most once per invocation) whether it
  raises. \<open>signature_parameters\<close> is the outcome of
  \<^verbatim>\<open>inspect.signature(AiohttpSession.__init__).parameters\<close>: the parameter names,
  or the exception raised.
\<close>

record ext =
  environ :: environment
  TCPConnector_raises :: "exn option"
  signature_parameters :: "exn + string list"
  AiohttpSession_raises :: "exn option"
  Bot_raises :: "exn option"
  setup_result :: await_result
  start_result :: await_result
  set_bot_raises :: "exn option"
  include_router_raises :: "exn option"
  set_flag_raises :: "exn option"
  register_raises :: "exn option"
  start_polling_result :: await_result
  cleanup_result :: await_result

text \<open>The calls into the libraries that have an effect outside the runner, with their arguments.\<close>

datatype event =
  TCPConnector_init address_family
| AiohttpSession_init kwargs
| Bot_init pyval string aiohttp_session
| AppRunner_setup "route list"
| TCPSite_start string int
| Include_router
| Startup_register
| Start_polling aiogram_bot
| Runner_cleanup

section \<open>Computations: state, exceptions, trace\<close>

datatype 'a outcome = Returned 'a | Raised exn | Blocked

text \<open>
  A computation takes the external module's state and gives its outcome, the new state and
  the calls it made, in order.
\<close>

type_synonym 'a comp = "app_module \<Rightarrow> 'a outcome \<times> app_module \<times> event list"

definition return :: "'a \<Rightarrow> 'a comp" where
  "return v a = (Returned v, a, [])"

definition py_raise :: "exn \<Rightarrow> 'a comp" where
  "py_raise e a = (Raised e, a, [])"

text \<open>Sequencing: the second statement runs only when the first returned.\<close>

definition then_do :: "'a comp \<Rightarrow> ('a \<Rightarrow> 'b comp) \<Rightarrow> 'b comp" where
  "then_do m f a =
     (case m a of
        (Returned v, a', evs) \<Rightarrow> (case f v a' of (r, a'', evs') \<Rightarrow> (r, a'', evs @ evs'))
      | (Raised e, a', evs) \<Rightarrow> (Raised e, a', evs)
      | (Blocked, a', evs) \<Rightarrow> (Blocked, a', evs))"

text \<open>A synchronous call into a library, and an awaited one.\<close>

definition call :: "event \<Rightarrow> exn option \<Rightarrow> unit comp" where
  "call ev raises a = ((case raises of None \<Rightarrow> Returned () | Some e \<Rightarrow> Raised e), a, [ev])"

definition await :: "event \<Rightarrow> await_result \<Rightarrow> unit comp" where
  "await ev res a =
     ((case res of Completes \<Rightarrow> Returned () | Fails e \<Rightarrow> Raised e | Never_completes \<Rightarrow> Blocked),
      a, [ev])"

text \<open>\<^verbatim>\<open>try: m except Exception: h\<close>\<close>

definition except_Exception :: "'a comp \<Rightarrow> 'a comp \<Rightarrow> 'a comp" where
  "except_Exception m h a =
     (case m a of
        (Raised e, a', evs) \<Rightarrow>
          (if is_Exception e then (case h a' of (r, a'', evs') \<Rightarrow> (r, a'', evs @ evs'))
           else (Raised e, a', evs))
      | (Returned v, a', evs) \<Rightarrow> (Returned v, a', evs)
      | (Blocked, a', evs) \<Rightarrow> (Blocked, a', evs))"

text \<open>
  \<^verbatim>\<open>try: m finally: f\<close>: the finaliser runs when the body returned or raised;
  when the finaliser itself raises, that exception replaces the body's outcome.
\<close>

definition try_finally :: "'a comp \<Rightarrow> unit comp \<Rightarrow> 'a comp" where
  "try_finally m f a =
     (case m a of
        (Blocked, a', evs) \<Rightarrow> (Blocked, a', evs)
      | (r, a', evs) \<Rightarrow>
          (case f a' of
             (Returned u, a'', evs') \<Rightarrow> (r, a'', evs @ evs')
           | (Raised e, a'', evs') \<Rightarrow> (Raised e, a'', evs @ evs')
           | (Blocked, a'', evs') \<Rightarrow> (Blocked, a'', evs @ evs')))"

section \<open>\<^verbatim>\<open>_build_bot\<close>\<close>

definition missing_token :: exn where
  "missing_token = Exn RuntimeError ''BOT_TOKEN (or API_TOKEN in bot.py) topilmadi''"

text \<open>
  Line 29:
  \<^verbatim>\<open>token = os.getenv("BOT_TOKEN") or getattr(app, "API_TOKEN", None)\<close>
\<close>

definition resolve_token :: "ext \<Rightarrow> app_module \<Rightarrow> pyval" where
  "resolve_token x a =
     py_or (getenv (environ x) ''BOT_TOKEN'')
           (case attr_API_TOKEN a of None \<Rightarrow> PyNone | Some v \<Rightarrow> v)"

text \<open>
  Lines 34 to 39: the connector is \<^verbatim>\<open>aiohttp.TCPConnector(family=socket.AF_INET)\<close>,
  or \<^verbatim>\<open>None\<close> when constructing it raises an \<^verbatim>\<open>Exception\<close>.
\<close>

definition build_connector :: "ext \<Rightarrow> tcp_connector option comp" where
  "build_connector x =
     except_Exception
       (then_do (call (TCPConnector_init AF_INET) (TCPConnector_raises x))
                (\<lambda>u. return (Some (TCPConnector AF_INET))))
       (return None)"

text \<open>
  Lines 42 to 52: the keyword arguments for \<^verbatim>\<open>AiohttpSession\<close>, from the
  parameters its \<^verbatim>\<open>__init__\<close> names; the empty dict when introspection raises an
  \<^verbatim>\<open>Exception\<close>.
\<close>

definition build_kwargs :: "ext \<Rightarrow> tcp_connector option \<Rightarrow> kwargs comp" where
  "build_kwargs x connector =
     except_Exception
       (case signature_parameters x of
          Inl e \<Rightarrow> py_raise e
        | Inr params \<Rightarrow>
            (let kwargs = [];
                 kwargs = (case connector of
                             None \<Rightarrow> kwargs
                           | Some c \<Rightarrow>
                               if ''connector'' \<in> set params
                               then AList.update ''connector'' (KwConnector c) kwargs
                               else kwargs);
                 kwargs = (if ''trust_env'' \<in> set params
                           then AList.update ''trust_env'' (KwBool True) kwargs
                           else kwargs)
             in return kwargs))
       (return [])"

text \<open>
  Lines 22 to 60. The token check comes first; the session and the bot are constructed
  outside any handler, so an exception of theirs leaves \<^verbatim>\<open>_build_bot\<close>.
\<close>

definition build_bot :: "ext \<Rightarrow> aiogram_bot comp" where
  "build_bot x a =
     (let token = resolve_token x a in
      if \<not> truthy token then py_raise missing_token a
      else
        then_do (build_connector x) (\<lambda>connector.
        then_do (build_kwargs x connector) (\<lambda>kwargs.
        then_do (call (AiohttpSession_init kwargs) (AiohttpSession_raises x)) (\<lambda>u.
        then_do (call (Bot_init token ''HTML'' (AiohttpSession kwargs)) (Bot_raises x)) (\<lambda>u'.
        return (Bot token ''HTML'' (AiohttpSession kwargs)))))) a)"

section \<open>\<^verbatim>\<open>main\<close>\<close>

text \<open>
  Lines 70 to 83: the port is \<^verbatim>\<open>int(os.getenv("PORT", "8000"))\<close>; the runner of the
  health application is set up and a site on host \<^verbatim>\<open>0.0.0.0\<close> and that port is
  started. Nothing here is inside a handler.
\<close>

definition start_health :: "ext \<Rightarrow> unit comp" where
  "start_health x =
     (case py_int (getenv_default (environ x) ''PORT'' ''8000'') of
        Inl e \<Rightarrow> py_raise e
      | Inr port \<Rightarrow>
          then_do (await (AppRunner_setup health_app) (setup_result x)) (\<lambda>u.
          await (TCPSite_start ''0.0.0.0'' port) (start_result x)))"

text \<open>Lines 86 to 89: \<^verbatim>\<open>app.bot = bot\<close>, best effort.\<close>

definition setattr_bot :: "ext \<Rightarrow> aiogram_bot \<Rightarrow> unit comp" where
  "setattr_bot x b a =
     (case set_bot_raises x of
        Some e \<Rightarrow> (Raised e, a, [])
      | None \<Rightarrow> (Returned (), a\<lparr>attr_bot := Some b\<rparr>, []))"

definition patch_bot :: "ext \<Rightarrow> aiogram_bot \<Rightarrow> unit comp" where
  "patch_bot x b = except_Exception (setattr_bot x b) (return ())"

text \<open>
  Lines 92 to 101. \<^verbatim>\<open>app.dp.include_router(app.router)\<close> reads the attribute
  \<^verbatim>\<open>dp\<close>, then \<^verbatim>\<open>router\<close> (each an \<^verbatim>\<open>AttributeError\<close> when the
  module does not define it), then calls. The flag is set after the inner handler, whether
  the call returned or its exception was swallowed.
\<close>

definition call_include_router :: "ext \<Rightarrow> unit comp" where
  "call_include_router x a =
     (if \<not> attr_dp a then py_raise (Exn AttributeError ''module bot has no attribute dp'') a
      else if \<not> attr_router a
        then py_raise (Exn AttributeError ''module bot has no attribute router'') a
      else call Include_router (include_router_raises x) a)"

definition setattr_flag :: "ext \<Rightarrow> unit comp" where
  "setattr_flag x a =
     (case set_flag_raises x of
        Some e \<Rightarrow> (Raised e, a, [])
      | None \<Rightarrow> (Returned (), a\<lparr>attr_KOYEB_ROUTER_INCLUDED := Some (PyBool True)\<rparr>, []))"

definition include_router_once :: "ext \<Rightarrow> unit comp" where
  "include_router_once x =
     except_Exception
       (\<lambda>a. let included = (case attr_KOYEB_ROUTER_INCLUDED a of
                               None \<Rightarrow> PyBool False
                             | Some v \<Rightarrow> v)
            in if \<not> truthy included
               then then_do (except_Exception (call_include_router x) (return ()))
                            (\<lambda>u. setattr_flag x) a
               else return () a)
       (return ())"

text \<open>
  Lines 104 to 111: when the module has \<^verbatim>\<open>on_startup\<close>,
  \<^verbatim>\<open>app.dp.startup.register(app.on_startup)\<close>. No flag is read or written here.
\<close>

definition call_register :: "ext \<Rightarrow> unit comp" where
  "call_register x a =
     (if \<not> attr_dp a then py_raise (Exn AttributeError ''module bot has no attribute dp'') a
      else call Startup_register (register_raises x) a)"

definition register_startup :: "ext \<Rightarrow> unit comp" where
  "register_startup x =
     except_Exception
       (\<lambda>a. if attr_on_startup a
            then except_Exception (call_register x) (return ()) a
            else return () a)
       (return ())"

text \<open>
  Lines 113 to 119: \<^verbatim>\<open>await app.dp.start_polling(bot)\<close> inside
  \<^verbatim>\<open>try ... finally\<close>; the finaliser awaits \<^verbatim>\<open>health_runner.cleanup()\<close>
  and swallows an \<^verbatim>\<open>Exception\<close> of it.
\<close>

definition call_start_polling :: "ext \<Rightarrow> aiogram_bot \<Rightarrow> unit comp" where
  "call_start_polling x b a =
     (if \<not> attr_dp a then py_raise (Exn AttributeError ''module bot has no attribute dp'') a
      else await (Start_polling b) (start_polling_result x) a)"

definition cleanup :: "ext \<Rightarrow> unit comp" where
  "cleanup x = except_Exception (await Runner_cleanup (cleanup_result x)) (return ())"

definition poll_and_cleanup :: "ext \<Rightarrow> aiogram_bot \<Rightarrow> unit comp" where
  "poll_and_cleanup x b = try_finally (call_start_polling x b) (cleanup x)"

text \<open>Lines 63 to 119.\<close>

definition main :: "ext \<Rightarrow> unit comp" where
  "main x =
     then_do (build_bot x) (\<lambda>b.
     then_do (start_health x) (\<lambda>u1.
     then_do (patch_bot x b) (\<lambda>u2.
     then_do (include_router_once x) (\<lambda>u3.
     then_do (register_startup x) (\<lambda>u4.
     poll_and_cleanup x b)))))"

text \<open>Invoking \<^verbatim>\<open>main\<close> several times in one process, one invocation after the other:
  the module state is handed on, the calls accumulate.\<close>

fun main_runs :: "ext list \<Rightarrow> app_module \<Rightarrow> app_module \<times> event list" where
  "main_runs [] a = (a, [])"
| "main_runs (x # xs) a =
     (case main x a of
        (r, a', evs) \<Rightarrow> (case main_runs xs a' of (a'', evs') \<Rightarrow> (a'', evs @ evs')))"

text \<open>The three components of what a computation gives.\<close>

definition outcome_of :: "'a outcome \<times> app_module \<times> event list \<Rightarrow> 'a outcome" where
  "outcome_of r = fst r"

definition state_of :: "'a outcome \<times> app_module \<times> event list \<Rightarrow> app_module" where
  "state_of r = fst (snd r)"

definition events_of :: "'a outcome \<times> app_module \<times> event list \<Rightarrow> event list" where
  "events_of r = snd (snd r)"

section \<open>Closed forms used in the statements and proofs\<close>

text \<open>
  The keyword arguments the specification names for given outcomes of feature detection: the
  IPv4 connector when it could be constructed and \<^verbatim>\<open>connector\<close> is a parameter,
  \<^verbatim>\<open>trust_env=True\<close> when \<^verbatim>\<open>trust_env\<close> is a parameter, nothing when
  introspection raised.
\<close>

definition expected_kwargs :: "ext \<Rightarrow> kwargs" where
  "expected_kwargs x =
     (case signature_parameters x of
        Inl e \<Rightarrow> []
      | Inr params \<Rightarrow>
          (if TCPConnector_raises x = None \<and> ''connector'' \<in> set params
           then [(''connector'', KwConnector (TCPConnector AF_INET))] else []) @
          (if ''trust_env'' \<in> set params then [(''trust_env'', KwBool True)] else []))"

text \<open>
  \<^verbatim>\<open>_build_bot\<close> reaches the construction of the session: a token was found and
  neither feature detection step raised something that \<^verbatim>\<open>except Exception\<close>
  lets through.
\<close>

definition build_reaches_session :: "ext \<Rightarrow> app_module \<Rightarrow> bool" where
  "build_reaches_session x a =
     (truthy (resolve_token x a) \<and>
      (case TCPConnector_raises x of None \<Rightarrow> True | Some e \<Rightarrow> is_Exception e) \<and>
      (case signature_parameters x of Inl e \<Rightarrow> is_Exception e | Inr ps \<Rightarrow> True))"

text \<open>The flag \<^verbatim>\<open>_KOYEB_ROUTER_INCLUDED\<close> is defined and truthy.\<close>

definition flag_set :: "app_module \<Rightarrow> bool" where
  "flag_set a = (case attr_KOYEB_ROUTER_INCLUDED a of None \<Rightarrow> False | Some v \<Rightarrow> truthy v)"

text \<open>The calls of lines 92 to 111 in an invocation that got past line 89 with bot \<open>b\<close>.\<close>

definition before_polling :: "ext \<Rightarrow> aiogram_bot \<Rightarrow> app_module \<Rightarrow> event list" where
  "before_polling x b a =
     events_of (include_router_once x (state_of (patch_bot x b a))) @
     events_of (register_startup x (state_of (include_router_once x (state_of (patch_bot x b a)))))"

text \<open>
  The number that a string of decimal digits denotes, read from the left; independent of the
  conversion above, for stating which port a \<^verbatim>\<open>PORT\<close> value gives.
\<close>

definition decimal_value :: "string \<Rightarrow> nat" where
  "decimal_value ds = foldl (\<lambda>n c. 10 * n + (of_char c - 48)) 0 ds"

subsection \<open>Concrete inputs\<close>

text \<open>
  An outside world in which every call succeeds, no environment variable is set and the
  installed \<^verbatim>\<open>AiohttpSession.__init__\<close> names both optional parameters; and an
  external module that defines everything the runner looks for.
\<close>

definition x_ok :: ext where
  "x_ok = \<lparr>environ = (\<lambda>k. None), TCPConnector_raises = None,
     signature_parameters = Inr [''self'', ''proxy'', ''connector'', ''trust_env''],
     AiohttpSession_raises = None, Bot_raises = None,
     setup_result = Completes, start_result = Completes,
     set_bot_raises = None, include_router_raises = None, set_flag_raises = None,
     register_raises = None, start_polling_result = Completes, cleanup_result = Completes\<rparr>"

definition a_ok :: app_module where
  "a_ok = \<lparr>attr_API_TOKEN = Some (PyStr ''123:abc''), attr_bot = None, attr_dp = True,
     attr_router = True, attr_on_startup = True, attr_KOYEB_ROUTER_INCLUDED = None\<rparr>"

text \<open>The bot that \<^verbatim>\<open>_build_bot\<close> returns for these inputs.\<close>

definition bot_ok :: aiogram_bot where
  "bot_ok = Bot (PyStr ''123:abc'') ''HTML''
     (AiohttpSession [(''connector'', KwConnector (TCPConnector AF_INET)),
                      (''trust_env'', KwBool True)])"

text \<open>
  An outside world in which every call that the runner guards with
  \<^verbatim>\<open>except Exception\<close> raises an \<^verbatim>\<open>Exception\<close>, and everything else succeeds.
\<close>

definition x_guarded_fail :: ext where
  "x_guarded_fail = x_ok
     \<lparr>TCPConnector_raises := Some (Exn RuntimeError ''no running event loop''),
      signature_parameters := Inl (Exn ValueError ''no signature found''),
      set_bot_raises := Some (Exn AttributeError ''can't set attribute''),
      include_router_raises := Some (Exn RuntimeError ''Router is already attached''),
      set_flag_raises := Some (Exn AttributeError ''can't set attribute''),
      register_raises := Some (Exn TypeError ''not callable''),
      cleanup_result := Fails (Exn OSError ''socket is closed'')\<rparr>"

section \<open>Lemmas about the building blocks\<close>

lemma proj_simps [simp]:
  "outcome_of (r, a, evs) = r" "state_of (r, a, evs) = a" "events_of (r, a, evs) = evs"
  by (simp_all add: outcome_of_def state_of_def events_of_def)

lemma outcome_then_do:
  "outcome_of (then_do m f a) =
     (case outcome_of (m a) of
        Returned v \<Rightarrow> outcome_of (f v (state_of (m a)))
      | Raised e \<Rightarrow> Raised e
      | Blocked \<Rightarrow> Blocked)"
  by (cases "m a" rule: prod_cases3)
     (auto simp: then_do_def split: outcome.splits prod.splits)

lemma state_then_do:
  "state_of (then_do m f a) =
     (case outcome_of (m a) of
        Returned v \<Rightarrow> state_of (f v (state_of (m a)))
      | Raised e \<Rightarrow> state_of (m a)
      | Blocked \<Rightarrow> state_of (m a))"
  by (cases "m a" rule: prod_cases3)
     (auto simp: then_do_def split: outcome.splits prod.splits)

lemma events_then_do:
  "events_of (then_do m f a) =
     events_of (m a) @
     (case outcome_of (m a) of
        Returned v \<Rightarrow> events_of (f v (state_of (m a)))
      | Raised e \<Rightarrow> []
      | Blocked \<Rightarrow> [])"
  by (cases "m a" rule: prod_cases3)
     (auto simp: then_do_def split: outcome.splits prod.splits)

lemma build_connector_simps:
  "state_of (build_connector x a) = a"
  "events_of (build_connector x a) = [TCPConnector_init AF_INET]"
  "outcome_of (build_connector x a) =
     (case TCPConnector_raises x of
        None \<Rightarrow> Returned (Some (TCPConnector AF_INET))
      | Some e \<Rightarrow> if is_Exception e then Returned None else Raised e)"
  by (auto simp: build_connector_def except_Exception_def then_do_def call_def return_def
           split: option.splits)

lemma build_kwargs_simps:
  "state_of (build_kwargs x c a) = a"
  "events_of (build_kwargs x c a) = []"
  "outcome_of (build_kwargs x c a) =
     (case signature_parameters x of
        Inl e \<Rightarrow> if is_Exception e then Returned [] else Raised e
      | Inr params \<Rightarrow>
          Returned ((case c of
                       None \<Rightarrow> []
                     | Some k \<Rightarrow> if ''connector'' \<in> set params
                                 then [(''connector'', KwConnector k)] else []) @
                    (if ''trust_env'' \<in> set params then [(''trust_env'', KwBool True)] else [])))"
  by (auto simp: build_kwargs_def except_Exception_def py_raise_def return_def Let_def
           split: option.splits sum.splits)

lemma build_bot_state: "state_of (build_bot x a) = a"
  by (simp add: build_bot_def Let_def py_raise_def state_then_do build_connector_simps
        build_kwargs_simps call_def return_def split: outcome.splits option.splits sum.splits)

lemma build_bot_events:
  "events_of (build_bot x a) =
     (if \<not> truthy (resolve_token x a) then []
      else TCPConnector_init AF_INET #
        (if build_reaches_session x a
         then AiohttpSession_init (expected_kwargs x) #
              (if AiohttpSession_raises x = None
               then [Bot_init (resolve_token x a) ''HTML'' (AiohttpSession (expected_kwargs x))]
               else [])
         else []))"
  by (auto simp add: build_bot_def Let_def py_raise_def events_then_do state_then_do outcome_then_do build_connector_simps
        build_kwargs_simps call_def return_def expected_kwargs_def build_reaches_session_def split: outcome.splits option.splits sum.splits)

lemma build_bot_returned:
  "(outcome_of (build_bot x a) = Returned b) =
     (build_reaches_session x a \<and> AiohttpSession_raises x = None \<and> Bot_raises x = None \<and>
      b = Bot (resolve_token x a) ''HTML'' (AiohttpSession (expected_kwargs x)))"
  by (auto simp add: build_bot_def Let_def py_raise_def events_then_do state_then_do outcome_then_do build_connector_simps
        build_kwargs_simps call_def return_def expected_kwargs_def build_reaches_session_def split: outcome.splits option.splits sum.splits)

lemma build_bot_not_blocked: "outcome_of (build_bot x a) \<noteq> Blocked"
  by (auto simp add: build_bot_def Let_def py_raise_def events_then_do state_then_do outcome_then_do build_connector_simps
        build_kwargs_simps call_def return_def expected_kwargs_def build_reaches_session_def split: outcome.splits option.splits sum.splits)

lemma build_bot_no_token:
  "\<not> truthy (resolve_token x a) \<Longrightarrow> build_bot x a = (Raised missing_token, a, [])"
  by (simp add: build_bot_def py_raise_def)

lemma start_health_simps:
  "state_of (start_health x a) = a"
  "events_of (start_health x a) =
     (case py_int (getenv_default (environ x) ''PORT'' ''8000'') of
        Inl e \<Rightarrow> []
      | Inr p \<Rightarrow> AppRunner_setup health_app #
          (if setup_result x = Completes then [TCPSite_start ''0.0.0.0'' p] else []))"
  "outcome_of (start_health x a) =
     (case py_int (getenv_default (environ x) ''PORT'' ''8000'') of
        Inl e \<Rightarrow> Raised e
      | Inr p \<Rightarrow>
          (case setup_result x of
             Completes \<Rightarrow>
               (case start_result x of
                  Completes \<Rightarrow> Returned () | Fails e \<Rightarrow> Raised e | Never_completes \<Rightarrow> Blocked)
           | Fails e \<Rightarrow> Raised e
           | Never_completes \<Rightarrow> Blocked))"
  by (auto simp: start_health_def py_raise_def then_do_def await_def
           split: sum.splits await_result.splits)

lemma patch_bot_simps:
  "state_of (patch_bot x b a) = (if set_bot_raises x = None then a\<lparr>attr_bot := Some b\<rparr> else a)"
  "events_of (patch_bot x b a) = []"
  "outcome_of (patch_bot x b a) =
     (case set_bot_raises x of
        None \<Rightarrow> Returned ()
      | Some e \<Rightarrow> if is_Exception e then Returned () else Raised e)"
  by (auto simp: patch_bot_def setattr_bot_def except_Exception_def return_def
           split: option.splits)

lemma include_router_once_events:
  "events_of (include_router_once x a) =
     (if \<not> flag_set a \<and> attr_dp a \<and> attr_router a then [Include_router] else [])"
  by (auto simp: include_router_once_def call_include_router_def setattr_flag_def
        except_Exception_def then_do_def return_def py_raise_def call_def Let_def flag_set_def
      split: option.splits)

lemma include_router_once_outcome:
  "outcome_of (include_router_once x a) =
     (if flag_set a then Returned ()
      else (case include_router_raises x of
              None \<Rightarrow>
                (case set_flag_raises x of
                   None \<Rightarrow> Returned ()
                 | Some e \<Rightarrow> if is_Exception e then Returned () else Raised e)
            | Some e' \<Rightarrow>
                if attr_dp a \<and> attr_router a \<and> \<not> is_Exception e' then Raised e'
                else (case set_flag_raises x of
                        None \<Rightarrow> Returned ()
                      | Some e \<Rightarrow> if is_Exception e then Returned () else Raised e)))"
  by (auto simp: include_router_once_def call_include_router_def setattr_flag_def
        except_Exception_def then_do_def return_def py_raise_def call_def Let_def flag_set_def
      split: option.splits)

lemma include_router_once_state:
  "state_of (include_router_once x a) =
     (if flag_set a then a
      else if attr_dp a \<and> attr_router a \<and>
              (case include_router_raises x of None \<Rightarrow> False | Some e \<Rightarrow> \<not> is_Exception e)
        then a
      else if set_flag_raises x = None
        then a\<lparr>attr_KOYEB_ROUTER_INCLUDED := Some (PyBool True)\<rparr>
      else a)"
  by (auto simp: include_router_once_def call_include_router_def setattr_flag_def
        except_Exception_def then_do_def return_def py_raise_def call_def Let_def flag_set_def
      split: option.splits)

lemma register_startup_simps:
  "state_of (register_startup x a) = a"
  "events_of (register_startup x a) =
     (if attr_on_startup a \<and> attr_dp a then [Startup_register] else [])"
  "outcome_of (register_startup x a) =
     (if attr_on_startup a \<and> attr_dp a
      then (case register_raises x of
              None \<Rightarrow> Returned ()
            | Some e \<Rightarrow> if is_Exception e then Returned () else Raised e)
      else Returned ())"
  by (auto simp: register_startup_def call_register_def
        except_Exception_def return_def py_raise_def call_def
      split: option.splits)

lemma cleanup_simps:
  "state_of (cleanup x a) = a"
  "events_of (cleanup x a) = [Runner_cleanup]"
  "outcome_of (cleanup x a) =
     (case cleanup_result x of
        Completes \<Rightarrow> Returned ()
      | Fails e \<Rightarrow> if is_Exception e then Returned () else Raised e
      | Never_completes \<Rightarrow> Blocked)"
  by (auto simp: cleanup_def except_Exception_def return_def await_def
      split: await_result.splits)

lemma call_start_polling_simps:
  "state_of (call_start_polling x b a) = a"
  "events_of (call_start_polling x b a) = (if attr_dp a then [Start_polling b] else [])"
  "outcome_of (call_start_polling x b a) =
     (if attr_dp a
      then (case start_polling_result x of
              Completes \<Rightarrow> Returned () | Fails e \<Rightarrow> Raised e | Never_completes \<Rightarrow> Blocked)
      else Raised (Exn AttributeError ''module bot has no attribute dp''))"
  by (auto simp: call_start_polling_def py_raise_def await_def split: await_result.splits)

lemma state_try_finally:
  "state_of (try_finally m f a) =
     (if outcome_of (m a) = Blocked then state_of (m a) else state_of (f (state_of (m a))))"
  by (cases "m a" rule: prod_cases3)
     (auto simp: try_finally_def split: outcome.splits prod.splits)

lemma events_try_finally:
  "events_of (try_finally m f a) =
     events_of (m a) @
     (if outcome_of (m a) = Blocked then [] else events_of (f (state_of (m a))))"
  by (cases "m a" rule: prod_cases3)
     (auto simp: try_finally_def split: outcome.splits prod.splits)

lemma outcome_try_finally:
  "outcome_of (try_finally m f a) =
     (if outcome_of (m a) = Blocked then Blocked
      else (case outcome_of (f (state_of (m a))) of
              Returned u \<Rightarrow> outcome_of (m a)
            | Raised e \<Rightarrow> Raised e
            | Blocked \<Rightarrow> Blocked))"
  by (cases "m a" rule: prod_cases3)
     (auto simp: try_finally_def split: outcome.splits prod.splits)

lemma poll_and_cleanup_simps:
  "state_of (poll_and_cleanup x b a) = a"
  "events_of (poll_and_cleanup x b a) =
     (if attr_dp a
      then Start_polling b # (if start_polling_result x = Never_completes then [] else [Runner_cleanup])
      else [Runner_cleanup])"
  by (auto simp: poll_and_cleanup_def state_try_finally events_try_finally
        call_start_polling_simps cleanup_simps split: await_result.splits)

lemma poll_and_cleanup_outcome:
  "outcome_of (poll_and_cleanup x b a) =
     (if outcome_of (call_start_polling x b a) = Blocked then Blocked
      else (case cleanup_result x of
              Completes \<Rightarrow> outcome_of (call_start_polling x b a)
            | Fails e \<Rightarrow> if is_Exception e then outcome_of (call_start_polling x b a) else Raised e
            | Never_completes \<Rightarrow> Blocked))"
  by (auto simp: poll_and_cleanup_def outcome_try_finally
        call_start_polling_simps cleanup_simps split: await_result.splits)

lemma main_no_token:
  "\<not> truthy (resolve_token x a) \<Longrightarrow> main x a = (Raised missing_token, a, [])"
  by (simp add: main_def then_do_def build_bot_no_token)

lemma patch_bot_attrs:
  "attr_dp (state_of (patch_bot x b a)) = attr_dp a"
  "attr_router (state_of (patch_bot x b a)) = attr_router a"
  "attr_on_startup (state_of (patch_bot x b a)) = attr_on_startup a"
  "attr_API_TOKEN (state_of (patch_bot x b a)) = attr_API_TOKEN a"
  "flag_set (state_of (patch_bot x b a)) = flag_set a"
  by (simp_all add: patch_bot_simps flag_set_def)

lemma include_router_once_attrs:
  "attr_dp (state_of (include_router_once x a)) = attr_dp a"
  "attr_router (state_of (include_router_once x a)) = attr_router a"
  "attr_on_startup (state_of (include_router_once x a)) = attr_on_startup a"
  "attr_API_TOKEN (state_of (include_router_once x a)) = attr_API_TOKEN a"
  by (simp_all add: include_router_once_state)

lemma main_events:
  "events_of (main x a) =
     events_of (build_bot x a) @
     (case outcome_of (build_bot x a) of
        Returned b \<Rightarrow>
          events_of (start_health x a) @
          (if outcome_of (start_health x a) = Returned () \<and>
              outcome_of (patch_bot x b a) = Returned ()
           then events_of (include_router_once x (state_of (patch_bot x b a))) @
             (if outcome_of (include_router_once x (state_of (patch_bot x b a))) = Returned ()
              then events_of (register_startup x
                     (state_of (include_router_once x (state_of (patch_bot x b a))))) @
                (if outcome_of (register_startup x
                     (state_of (include_router_once x (state_of (patch_bot x b a))))) = Returned ()
                 then events_of (poll_and_cleanup x b
                        (state_of (include_router_once x (state_of (patch_bot x b a)))))
                 else [])
              else [])
           else [])
      | Raised e \<Rightarrow> []
      | Blocked \<Rightarrow> [])"
  by (simp add: main_def events_then_do outcome_then_do state_then_do build_bot_state
        start_health_simps(1) patch_bot_simps(2) register_startup_simps(1)
      split: outcome.splits)

lemma main_outcome:
  "outcome_of (main x a) =
     (case outcome_of (build_bot x a) of
        Returned b \<Rightarrow>
          (case outcome_of (start_health x a) of
             Returned u1 \<Rightarrow>
               (case outcome_of (patch_bot x b a) of
                  Returned u2 \<Rightarrow>
                    (case outcome_of (include_router_once x (state_of (patch_bot x b a))) of
                       Returned u3 \<Rightarrow>
                         (case outcome_of (register_startup x
                                 (state_of (include_router_once x (state_of (patch_bot x b a))))) of
                            Returned u4 \<Rightarrow>
                              outcome_of (poll_and_cleanup x b
                                (state_of (include_router_once x (state_of (patch_bot x b a)))))
                          | Raised e \<Rightarrow> Raised e
                          | Blocked \<Rightarrow> Blocked)
                     | Raised e \<Rightarrow> Raised e
                     | Blocked \<Rightarrow> Blocked)
                | Raised e \<Rightarrow> Raised e
                | Blocked \<Rightarrow> Blocked)
           | Raised e \<Rightarrow> Raised e
           | Blocked \<Rightarrow> Blocked)
      | Raised e \<Rightarrow> Raised e
      | Blocked \<Rightarrow> Blocked)"
  by (simp add: main_def outcome_then_do state_then_do build_bot_state
        start_health_simps(1) register_startup_simps(1)
      split: outcome.splits)

lemma main_state:
  "state_of (main x a) =
     (case outcome_of (build_bot x a) of
        Returned b \<Rightarrow>
          (if outcome_of (start_health x a) = Returned ()
           then (if outcome_of (patch_bot x b a) = Returned ()
                 then state_of (include_router_once x (state_of (patch_bot x b a)))
                 else state_of (patch_bot x b a))
           else a)
      | Raised e \<Rightarrow> a
      | Blocked \<Rightarrow> a)"
  by (simp add: main_def outcome_then_do state_then_do build_bot_state
        start_health_simps(1) register_startup_simps(1) poll_and_cleanup_simps(1)
      split: outcome.splits)

lemma not_polling_before:
  "Start_polling b \<notin> set (events_of (build_bot x a))"
  "Start_polling b \<notin> set (events_of (start_health x a))"
  "Start_polling b \<notin> set (events_of (include_router_once x a))"
  "Start_polling b \<notin> set (events_of (register_startup x a))"
  by (simp_all add: build_bot_events start_health_simps include_router_once_events
        register_startup_simps split: sum.splits)

lemma main_reaches_polling:
  assumes "Start_polling b \<in> set (events_of (main x a))"
  shows "outcome_of (build_bot x a) = Returned b \<and>
         outcome_of (start_health x a) = Returned () \<and>
         attr_dp a \<and>
         events_of (main x a) =
           events_of (build_bot x a) @ events_of (start_health x a) @
           before_polling x b a @ events_of (poll_and_cleanup x b a) \<and>
         outcome_of (main x a) = outcome_of (poll_and_cleanup x b a)"
proof -
  obtain b0 where b0: "outcome_of (build_bot x a) = Returned b0"
    using assms not_polling_before(1)[of b x a]
    by (cases "outcome_of (build_bot x a)") (simp_all add: main_events)
  let ?b3 = "state_of (patch_bot x b0 a)"
  let ?b4 = "state_of (include_router_once x ?b3)"
  have dp4: "attr_dp ?b4 = attr_dp a"
    by (simp add: include_router_once_attrs patch_bot_attrs)
  have in_rest: "outcome_of (start_health x a) = Returned () \<and>
      outcome_of (patch_bot x b0 a) = Returned () \<and>
      outcome_of (include_router_once x ?b3) = Returned () \<and>
      outcome_of (register_startup x ?b4) = Returned () \<and>
      Start_polling b \<in> set (events_of (poll_and_cleanup x b0 ?b4))"
    using assms b0 not_polling_before
    by (auto simp add: main_events split: if_splits)
  then have dpb: "attr_dp a \<and> b = b0"
    using dp4 by (auto simp add: poll_and_cleanup_simps split: if_splits)
  have ev: "events_of (poll_and_cleanup x b0 ?b4) = events_of (poll_and_cleanup x b0 a)"
    using dp4 by (simp add: poll_and_cleanup_simps)
  have out: "outcome_of (poll_and_cleanup x b0 ?b4) = outcome_of (poll_and_cleanup x b0 a)"
    using dp4 by (simp add: poll_and_cleanup_outcome call_start_polling_simps
                       split: await_result.splits)
  have e: "events_of (main x a) =
           events_of (build_bot x a) @ events_of (start_health x a) @
           before_polling x b0 a @ events_of (poll_and_cleanup x b0 a)"
    using in_rest b0 by (simp add: main_events before_polling_def ev)
  have "outcome_of (main x a) = outcome_of (poll_and_cleanup x b0 a)"
    using in_rest b0 by (simp add: main_outcome out)
  with e dpb b0 in_rest show ?thesis by simp
qed

section \<open>Token resolution\<close>

lemma resolve_token_cases:
  "resolve_token x a =
     (case environ x ''BOT_TOKEN'' of
        None \<Rightarrow> (case attr_API_TOKEN a of None \<Rightarrow> PyNone | Some v \<Rightarrow> v)
      | Some t \<Rightarrow> if t \<noteq> [] then PyStr t
                  else (case attr_API_TOKEN a of None \<Rightarrow> PyNone | Some v \<Rightarrow> v))"
  by (simp add: resolve_token_def py_or_def getenv_def split: option.splits)

text \<open>
  Claim C1. When no token is resolvable (\<^verbatim>\<open>BOT_TOKEN\<close> is unset or empty, and the
  external module has no \<^verbatim>\<open>API_TOKEN\<close> or a falsy one), \<^verbatim>\<open>_build_bot\<close>
  raises \<^verbatim>\<open>RuntimeError\<close> with the message of line 31, and so does
  \<^verbatim>\<open>main\<close>; no call was made before (the trace is empty: no connector, no session,
  no bot, no listener) and the module is unchanged. Otherwise the token is
  \<^verbatim>\<open>BOT_TOKEN\<close> when it is set to a non-empty string, else the module's
  \<^verbatim>\<open>API_TOKEN\<close>: that is the token of the bot that is returned and of every
  \<^verbatim>\<open>Bot(...)\<close> call.
\<close>

theorem C1_missing_token_is_fatal:
  "((environ x ''BOT_TOKEN'' = None \<or> environ x ''BOT_TOKEN'' = Some []) \<and>
    (attr_API_TOKEN a = None \<or> (\<exists>v. attr_API_TOKEN a = Some v \<and> \<not> truthy v))
      \<longrightarrow> build_bot x a =
            (Raised (Exn RuntimeError ''BOT_TOKEN (or API_TOKEN in bot.py) topilmadi''), a, []) \<and>
          main x a =
            (Raised (Exn RuntimeError ''BOT_TOKEN (or API_TOKEN in bot.py) topilmadi''), a, []))
   \<and> (\<forall>t. environ x ''BOT_TOKEN'' = Some t \<and> t \<noteq> [] \<longrightarrow> resolve_token x a = PyStr t)
   \<and> (\<forall>v. (environ x ''BOT_TOKEN'' = None \<or> environ x ''BOT_TOKEN'' = Some []) \<and>
           attr_API_TOKEN a = Some v \<and> truthy v \<longrightarrow> resolve_token x a = v)
   \<and> (\<forall>b. outcome_of (build_bot x a) = Returned b
           \<longrightarrow> truthy (resolve_token x a) \<and> bot_token b = resolve_token x a)
   \<and> (\<forall>t m s. Bot_init t m s \<in> set (events_of (build_bot x a))
           \<longrightarrow> truthy (resolve_token x a) \<and> t = resolve_token x a)"
proof (intro conjI impI allI)
  assume h: "(environ x ''BOT_TOKEN'' = None \<or> environ x ''BOT_TOKEN'' = Some []) \<and>
    (attr_API_TOKEN a = None \<or> (\<exists>v. attr_API_TOKEN a = Some v \<and> \<not> truthy v))"
  then have nt: "\<not> truthy (resolve_token x a)"
    by (auto simp: resolve_token_cases)
  show "build_bot x a =
      (Raised (Exn RuntimeError ''BOT_TOKEN (or API_TOKEN in bot.py) topilmadi''), a, [])"
    using build_bot_no_token[OF nt] by (simp add: missing_token_def)
  show "main x a =
      (Raised (Exn RuntimeError ''BOT_TOKEN (or API_TOKEN in bot.py) topilmadi''), a, [])"
    using main_no_token[OF nt] by (simp add: missing_token_def)
next
  fix t assume "environ x ''BOT_TOKEN'' = Some t \<and> t \<noteq> []"
  then show "resolve_token x a = PyStr t" by (simp add: resolve_token_cases)
next
  fix v assume "(environ x ''BOT_TOKEN'' = None \<or> environ x ''BOT_TOKEN'' = Some []) \<and>
           attr_API_TOKEN a = Some v \<and> truthy v"
  then show "resolve_token x a = v" by (auto simp: resolve_token_cases)
next
  fix b assume r: "outcome_of (build_bot x a) = Returned b"
  then show "truthy (resolve_token x a)"
    by (simp add: build_bot_returned build_reaches_session_def)
  from r show "bot_token b = resolve_token x a"
    by (simp add: build_bot_returned)
next
  fix t m s assume e: "Bot_init t m s \<in> set (events_of (build_bot x a))"
  then show "truthy (resolve_token x a)"
    by (simp add: build_bot_events split: if_splits)
  from e show "t = resolve_token x a"
    by (simp add: build_bot_events split: if_splits)
qed

theorem C1_missing_token_is_fatal_witness:
  "main x_ok (a_ok\<lparr>attr_API_TOKEN := None\<rparr>) =
     (Raised (Exn RuntimeError ''BOT_TOKEN (or API_TOKEN in bot.py) topilmadi''),
      a_ok\<lparr>attr_API_TOKEN := None\<rparr>, [])
   \<and> build_bot (x_ok\<lparr>environ := (\<lambda>k. if k = ''BOT_TOKEN'' then Some [] else None)\<rparr>)
        (a_ok\<lparr>attr_API_TOKEN := Some (PyStr [])\<rparr>) =
     (Raised (Exn RuntimeError ''BOT_TOKEN (or API_TOKEN in bot.py) topilmadi''),
      a_ok\<lparr>attr_API_TOKEN := Some (PyStr [])\<rparr>, [])
   \<and> resolve_token (x_ok\<lparr>environ := (\<lambda>k. if k = ''BOT_TOKEN'' then Some ''42:env'' else None)\<rparr>) a_ok
       = PyStr ''42:env''
   \<and> resolve_token x_ok a_ok = PyStr ''123:abc''
   \<and> outcome_of (build_bot x_ok a_ok) =
       Returned (Bot (PyStr ''123:abc'') ''HTML''
         (AiohttpSession [(''connector'', KwConnector (TCPConnector AF_INET)),
                          (''trust_env'', KwBool True)]))
   \<and> bot_token (Bot (PyStr ''123:abc'') ''HTML''
         (AiohttpSession [(''connector'', KwConnector (TCPConnector AF_INET)),
                          (''trust_env'', KwBool True)])) = resolve_token x_ok a_ok
   \<and> Bot_init (PyStr ''123:abc'') ''HTML''
         (AiohttpSession [(''connector'', KwConnector (TCPConnector AF_INET)),
                          (''trust_env'', KwBool True)]) \<in> set (events_of (build_bot x_ok a_ok))"
proof -
  have ev: "events_of (build_bot x_ok a_ok) =
      [TCPConnector_init AF_INET,
       AiohttpSession_init [(''connector'', KwConnector (TCPConnector AF_INET)),
                            (''trust_env'', KwBool True)],
       Bot_init (PyStr ''123:abc'') ''HTML''
         (AiohttpSession [(''connector'', KwConnector (TCPConnector AF_INET)),
                          (''trust_env'', KwBool True)])]"
    by (simp add: build_bot_events build_reaches_session_def expected_kwargs_def
          resolve_token_cases x_ok_def a_ok_def)
  have out: "outcome_of (build_bot x_ok a_ok) =
       Returned (Bot (PyStr ''123:abc'') ''HTML''
         (AiohttpSession [(''connector'', KwConnector (TCPConnector AF_INET)),
                          (''trust_env'', KwBool True)]))"
    by (simp add: build_bot_returned build_reaches_session_def expected_kwargs_def
          resolve_token_cases x_ok_def a_ok_def)
  show ?thesis
    using C1_missing_token_is_fatal[of x_ok "a_ok\<lparr>attr_API_TOKEN := None\<rparr>"]
      C1_missing_token_is_fatal[of
        "x_ok\<lparr>environ := (\<lambda>k. if k = ''BOT_TOKEN'' then Some [] else None)\<rparr>"
        "a_ok\<lparr>attr_API_TOKEN := Some (PyStr [])\<rparr>"]
      C1_missing_token_is_fatal[of
        "x_ok\<lparr>environ := (\<lambda>k. if k = ''BOT_TOKEN'' then Some ''42:env'' else None)\<rparr>" a_ok]
      C1_missing_token_is_fatal[of x_ok a_ok] ev out
    by (simp add: x_ok_def a_ok_def)
qed

text \<open>
  Claim C9. Token resolution tests truthiness, not presence. With \<^verbatim>\<open>BOT_TOKEN\<close> set
  to the empty string, a truthy \<^verbatim>\<open>API_TOKEN\<close> of the external module is the token
  (of the bot that is returned and of every \<^verbatim>\<open>Bot(...)\<close> call); and when the
  module's \<^verbatim>\<open>API_TOKEN\<close> exists but is falsy (the empty string, \<^verbatim>\<open>None\<close>
  or any other falsy value), \<^verbatim>\<open>_build_bot\<close> and \<^verbatim>\<open>main\<close> raise the
  \<^verbatim>\<open>RuntimeError\<close> of line 31 without having called anything.
\<close>

theorem C9_token_truthiness:
  assumes "environ x ''BOT_TOKEN'' = Some []"
  shows "(\<forall>v. attr_API_TOKEN a = Some v \<and> truthy v \<longrightarrow>
             resolve_token x a = v \<and>
             (\<forall>b. outcome_of (build_bot x a) = Returned b \<longrightarrow> bot_token b = v) \<and>
             (\<forall>t m s. Bot_init t m s \<in> set (events_of (build_bot x a)) \<longrightarrow> t = v))
       \<and> (\<forall>v. attr_API_TOKEN a = Some v \<and> \<not> truthy v \<longrightarrow>
             build_bot x a =
               (Raised (Exn RuntimeError ''BOT_TOKEN (or API_TOKEN in bot.py) topilmadi''), a, []) \<and>
             main x a =
               (Raised (Exn RuntimeError ''BOT_TOKEN (or API_TOKEN in bot.py) topilmadi''), a, []))"
proof -
  have first: "resolve_token x a = v \<and>
      (\<forall>b. outcome_of (build_bot x a) = Returned b \<longrightarrow> bot_token b = v) \<and>
      (\<forall>t m s. Bot_init t m s \<in> set (events_of (build_bot x a)) \<longrightarrow> t = v)"
    if h: "attr_API_TOKEN a = Some v \<and> truthy v" for v
  proof -
    have r: "resolve_token x a = v"
      using h assms by (simp add: resolve_token_cases)
    have b: "\<forall>b. outcome_of (build_bot x a) = Returned b \<longrightarrow> bot_token b = v"
      using r by (simp add: build_bot_returned)
    have e: "\<forall>t m s. Bot_init t m s \<in> set (events_of (build_bot x a)) \<longrightarrow> t = v"
      using r by (simp add: build_bot_events split: if_splits)
    from r b e show ?thesis by blast
  qed
  have second: "build_bot x a =
        (Raised (Exn RuntimeError ''BOT_TOKEN (or API_TOKEN in bot.py) topilmadi''), a, []) \<and>
      main x a =
        (Raised (Exn RuntimeError ''BOT_TOKEN (or API_TOKEN in bot.py) topilmadi''), a, [])"
    if h: "attr_API_TOKEN a = Some v \<and> \<not> truthy v" for v
  proof -
    have nt: "\<not> truthy (resolve_token x a)"
      using h assms by (simp add: resolve_token_cases)
    show ?thesis
      using build_bot_no_token[OF nt] main_no_token[OF nt] by (simp add: missing_token_def)
  qed
  from first second show ?thesis by blast
qed


theorem C9_token_truthiness_witness:
  "environ (x_ok\<lparr>environ := (\<lambda>k. if k = ''BOT_TOKEN'' then Some [] else None)\<rparr>) ''BOT_TOKEN''
     = Some []
   \<and> resolve_token (x_ok\<lparr>environ := (\<lambda>k. if k = ''BOT_TOKEN'' then Some [] else None)\<rparr>) a_ok
     = PyStr ''123:abc''
   \<and> outcome_of (build_bot
        (x_ok\<lparr>environ := (\<lambda>k. if k = ''BOT_TOKEN'' then Some [] else None)\<rparr>) a_ok) =
       Returned (Bot (PyStr ''123:abc'') ''HTML''
         (AiohttpSession [(''connector'', KwConnector (TCPConnector AF_INET)),
                          (''trust_env'', KwBool True)]))
   \<and> main (x_ok\<lparr>environ := (\<lambda>k. if k = ''BOT_TOKEN'' then Some [] else None)\<rparr>)
        (a_ok\<lparr>attr_API_TOKEN := Some (PyStr [])\<rparr>) =
       (Raised (Exn RuntimeError ''BOT_TOKEN (or API_TOKEN in bot.py) topilmadi''),
        a_ok\<lparr>attr_API_TOKEN := Some (PyStr [])\<rparr>, [])
   \<and> main (x_ok\<lparr>environ := (\<lambda>k. if k = ''BOT_TOKEN'' then Some [] else None)\<rparr>)
        (a_ok\<lparr>attr_API_TOKEN := Some PyNone\<rparr>) =
       (Raised (Exn RuntimeError ''BOT_TOKEN (or API_TOKEN in bot.py) topilmadi''),
        a_ok\<lparr>attr_API_TOKEN := Some PyNone\<rparr>, [])"
proof -
  let ?x = "x_ok\<lparr>environ := (\<lambda>k. if k = ''BOT_TOKEN'' then Some [] else None)\<rparr>"
  have e: "environ ?x ''BOT_TOKEN'' = Some []" by simp
  have out: "outcome_of (build_bot ?x a_ok) =
       Returned (Bot (PyStr ''123:abc'') ''HTML''
         (AiohttpSession [(''connector'', KwConnector (TCPConnector AF_INET)),
                          (''trust_env'', KwBool True)]))"
    by (simp add: build_bot_returned build_reaches_session_def expected_kwargs_def
          resolve_token_cases x_ok_def a_ok_def)
  note c = C9_token_truthiness[OF e]
  have r1: "resolve_token ?x a_ok = PyStr ''123:abc''"
    using c[of a_ok, THEN conjunct1, rule_format, of "PyStr ''123:abc''"]
    by (simp add: a_ok_def)
  have r2: "main ?x (a_ok\<lparr>attr_API_TOKEN := Some (PyStr [])\<rparr>) =
       (Raised (Exn RuntimeError ''BOT_TOKEN (or API_TOKEN in bot.py) topilmadi''),
        a_ok\<lparr>attr_API_TOKEN := Some (PyStr [])\<rparr>, [])"
    using c[of "a_ok\<lparr>attr_API_TOKEN := Some (PyStr [])\<rparr>", THEN conjunct2, rule_format,
            of "PyStr []"]
    by simp
  have r3: "main ?x (a_ok\<lparr>attr_API_TOKEN := Some PyNone\<rparr>) =
       (Raised (Exn RuntimeError ''BOT_TOKEN (or API_TOKEN in bot.py) topilmadi''),
        a_ok\<lparr>attr_API_TOKEN := Some PyNone\<rparr>, [])"
    using c[of "a_ok\<lparr>attr_API_TOKEN := Some PyNone\<rparr>", THEN conjunct2, rule_format,
            of PyNone]
    by simp
  show ?thesis
    by (intro conjI) (rule e r1 out r2 r3)+
qed

section \<open>The health endpoint\<close>

text \<open>
  Claim C2. Every \<^verbatim>\<open>GET\<close> request to \<^verbatim>\<open>/\<close> and every \<^verbatim>\<open>GET\<close>
  request to \<^verbatim>\<open>/health\<close> is answered by the health application with status 200 and
  body exactly \<^verbatim>\<open>ok\<close>, and both are dispatched to the same handler
  \<^verbatim>\<open>_health\<close>.
\<close>

theorem C2_health_routes:
  fixes rq :: request
  assumes "req_method rq = ''GET''"
    and "req_path rq = ''/'' \<or> req_path rq = ''/health''"
  shows "serve health_app rq = \<lparr>resp_status = 200, resp_text = ''ok''\<rparr> \<and>
         resolve health_app rq = Match health \<and>
         resolve health_app \<lparr>req_method = ''GET'', req_path = ''/''\<rparr> =
           resolve health_app \<lparr>req_method = ''GET'', req_path = ''/health''\<rparr>"
  using assms
  by (auto simp: serve_def resolve_def health_app_def add_get_def health_def web_Response_def)

theorem C2_health_routes_witness:
  "serve health_app \<lparr>req_method = ''GET'', req_path = ''/''\<rparr> =
     \<lparr>resp_status = 200, resp_text = ''ok''\<rparr>
   \<and> serve health_app \<lparr>req_method = ''GET'', req_path = ''/health''\<rparr> =
     \<lparr>resp_status = 200, resp_text = ''ok''\<rparr>
   \<and> resolve health_app \<lparr>req_method = ''GET'', req_path = ''/''\<rparr> = Match health
   \<and> resolve health_app \<lparr>req_method = ''GET'', req_path = ''/health''\<rparr> = Match health"
  using C2_health_routes[of "\<lparr>req_method = ''GET'', req_path = ''/''\<rparr>"]
    C2_health_routes[of "\<lparr>req_method = ''GET'', req_path = ''/health''\<rparr>"]
  by simp

section \<open>The listening port\<close>

lemma site_start_only_in_start_health:
  "TCPSite_start h p \<notin> set (events_of (build_bot x a))"
  "TCPSite_start h p \<notin> set (events_of (include_router_once x a))"
  "TCPSite_start h p \<notin> set (events_of (register_startup x a))"
  "TCPSite_start h p \<notin> set (events_of (poll_and_cleanup x b a))"
  by (simp_all add: build_bot_events include_router_once_events register_startup_simps
        poll_and_cleanup_simps)

lemma site_start_in_main:
  "(TCPSite_start h p \<in> set (events_of (main x a))) =
     ((\<exists>b. outcome_of (build_bot x a) = Returned b) \<and>
      TCPSite_start h p \<in> set (events_of (start_health x a)))"
  by (cases "outcome_of (build_bot x a)")
     (simp_all add: main_events site_start_only_in_start_health)

lemma py_int_8000: "py_int ''8000'' = Inr 8000"
  by (simp add: py_int_def strip_def is_space_def digit_val_def)

lemma dropWhile_keeps:
  "c \<in> set xs \<Longrightarrow> \<not> P c \<Longrightarrow> c \<in> set (dropWhile P xs)"
  by (induction xs) auto

lemma strip_keeps:
  "c \<in> set s \<Longrightarrow> \<not> is_space c \<Longrightarrow> c \<in> set (strip s)"
  by (simp add: strip_def dropWhile_keeps)

lemma parse_digits_rejects:
  "c \<in> set s \<Longrightarrow> digit_val c = None \<Longrightarrow> c \<noteq> CHR ''_'' \<Longrightarrow>
     parse_digits f acc s = None"
  by (induction s arbitrary: f acc) (auto split: option.splits)

lemma py_int_rejects:
  assumes "c \<in> set s" and "\<not> is_space c" and "digit_val c = None"
    and "c \<noteq> CHR ''_''" and "c \<noteq> CHR ''+''" and "c \<noteq> CHR ''-''"
  shows "py_int s = Inl invalid_literal"
proof (cases "strip s")
  case Nil
  then show ?thesis by (simp add: py_int_def)
next
  case (Cons c0 cs)
  have m: "c \<in> set (c0 # cs)"
    using strip_keeps[OF assms(1,2)] Cons by simp
  show ?thesis
  proof (cases "c0 = CHR ''-'' \<or> c0 = CHR ''+''")
    case True
    then have "c \<in> set cs" using m assms(5,6) by auto
    then have "parse_digits False 0 cs = None"
      using assms(3,4) by (rule parse_digits_rejects)
    then show ?thesis using Cons True by (auto simp add: py_int_def)
  next
    case False
    have "parse_digits False 0 (c0 # cs) = None"
      using m assms(3,4) by (rule parse_digits_rejects)
    then show ?thesis using Cons False by (simp add: py_int_def)
  qed
qed

lemma decimal_digit:
  assumes "c \<in> set ''0123456789''"
  shows "digit_val c = Some (of_char c - 48)" "c \<noteq> CHR ''_''" "c \<noteq> CHR ''+''"
    "c \<noteq> CHR ''-''" "\<not> is_space c"
  using assms by (auto simp add: digit_val_def is_space_def)

lemma parse_digits_decimal:
  "set ds \<subseteq> set ''0123456789'' \<Longrightarrow> ds \<noteq> [] \<or> f \<Longrightarrow>
     parse_digits f acc ds = Some (foldl (\<lambda>n c. 10 * n + (of_char c - 48)) acc ds)"
proof (induction ds arbitrary: f acc)
  case Nil
  then show ?case by simp
next
  case (Cons c ds)
  have c: "c \<in> set ''0123456789''" using Cons.prems(1) by simp
  have "parse_digits True (10 * acc + (of_char c - 48)) ds =
      Some (foldl (\<lambda>n c. 10 * n + (of_char c - 48)) (10 * acc + (of_char c - 48)) ds)"
    using Cons.prems(1) by (intro Cons.IH) simp_all
  then show ?case
    using decimal_digit(1,2)[OF c] by simp
qed

lemma strip_padded:
  assumes "\<forall>c\<in>set ws1. is_space c" and "\<forall>c\<in>set ws2. is_space c"
    and "ds \<noteq> []" and "\<forall>c\<in>set ds. \<not> is_space c"
  shows "strip (ws1 @ ds @ ws2) = ds"
proof -
  obtain d ds' where d: "ds = d # ds'" using assms(3) by (cases ds) auto
  have "dropWhile is_space (ws1 @ ds @ ws2) = dropWhile is_space (ds @ ws2)"
    by (rule dropWhile_append2) (use assms(1) in simp)
  also have "\<dots> = ds @ ws2"
    using assms(4) d by simp
  finally have lead: "dropWhile is_space (ws1 @ ds @ ws2) = ds @ ws2" .
  obtain e es where e: "rev ds = e # es" using assms(3) by (cases "rev ds") auto
  have "e \<in> set (rev ds)" using e by simp
  then have ne: "\<not> is_space e" using assms(4) by simp
  have "dropWhile is_space (rev ws2 @ rev ds) = dropWhile is_space (rev ds)"
    by (rule dropWhile_append2) (use assms(2) in simp)
  also have "\<dots> = rev ds"
    using ne by (simp add: e)
  finally have trail: "dropWhile is_space (rev ws2 @ rev ds) = rev ds" .
  show ?thesis
    by (simp add: strip_def lead trail)
qed

lemma py_int_decimal:
  assumes "set ws1 \<subseteq> set [CHR '' '', CHR 0x09, CHR 0x0A, CHR 0x0B, CHR 0x0C, CHR 0x0D,
                            CHR 0x85, CHR 0xA0]"
    and "set ws2 \<subseteq> set [CHR '' '', CHR 0x09, CHR 0x0A, CHR 0x0B, CHR 0x0C, CHR 0x0D,
                            CHR 0x85, CHR 0xA0]"
    and "set ds \<subseteq> set ''0123456789''" and "ds \<noteq> []" and "length ds \<le> 640"
  shows "py_int (ws1 @ ds @ ws2) = Inr (int (decimal_value ds))"
proof -
  have w1: "\<forall>c\<in>set ws1. is_space c"
    unfolding is_space_def using assms(1) by blast
  have w2: "\<forall>c\<in>set ws2. is_space c"
    unfolding is_space_def using assms(2) by blast
  have nd: "\<forall>c\<in>set ds. \<not> is_space c"
    using assms(3) decimal_digit(5) by blast
  have st: "strip (ws1 @ ds @ ws2) = ds"
    using w1 w2 assms(4) nd by (rule strip_padded)
  obtain d ds' where d: "ds = d # ds'" using assms(4) by (cases ds) auto
  have dd: "d \<in> set ''0123456789''" using assms(3) unfolding d by simp
  have nosign: "\<not> (d = CHR ''-'' \<or> d = CHR ''+'')"
    using decimal_digit(3,4)[OF dd] by simp
  have parsed: "parse_digits False 0 ds = Some (decimal_value ds)"
    unfolding decimal_value_def
    by (rule parse_digits_decimal) (use assms(3,4) in simp_all)
  have "length (filter (\<lambda>c. c \<noteq> CHR ''_'') ds) \<le> length ds"
    by (rule length_filter_le)
  then have short: "\<not> 4300 < length (filter (\<lambda>c. c \<noteq> CHR ''_'') ds)"
    using assms(5) by linarith
  have "py_int (ws1 @ ds @ ws2) =
      (let body = (if d = CHR ''-'' \<or> d = CHR ''+'' then ds' else d # ds') in
           case parse_digits False 0 body of
             None \<Rightarrow> Inl invalid_literal
           | Some n \<Rightarrow>
               if 4300 < length (filter (\<lambda>c. c \<noteq> CHR ''_'') body) then Inl exceeds_limit
               else Inr (if d = CHR ''-'' then - int n else int n))"
    unfolding py_int_def st unfolding d by simp
  also have "\<dots> = (case parse_digits False 0 ds of
             None \<Rightarrow> Inl invalid_literal
           | Some n \<Rightarrow>
               if 4300 < length (filter (\<lambda>c. c \<noteq> CHR ''_'') ds) then Inl exceeds_limit
               else Inr (int n))"
    using nosign unfolding d
    by (simp add: Let_def del: parse_digits.simps split: option.splits)
  also have "\<dots> = Inr (int (decimal_value ds))"
    unfolding parsed using short by simp
  finally show ?thesis .
qed

lemma site_start_iff:
  "(TCPSite_start h p \<in> set (events_of (main x a))) =
     ((\<exists>b. outcome_of (build_bot x a) = Returned b) \<and> h = ''0.0.0.0'' \<and>
      py_int (getenv_default (environ x) ''PORT'' ''8000'') = Inr p \<and>
      setup_result x = Completes)"
  by (cases "py_int (getenv_default (environ x) ''PORT'' ''8000'')")
     (auto simp add: site_start_in_main start_health_simps)

lemma main_raises_port_error:
  assumes "outcome_of (build_bot x a) = Returned b"
    and "py_int (getenv_default (environ x) ''PORT'' ''8000'') = Inl e"
  shows "outcome_of (main x a) = Raised e"
  using assms by (simp add: main_outcome start_health_simps)

text \<open>
  Claim C3. The health listener binds to the port given by \<^verbatim>\<open>PORT\<close>, and to 8000 when
  \<^verbatim>\<open>PORT\<close> is unset. Every site that \<^verbatim>\<open>main\<close> starts is on host
  \<^verbatim>\<open>0.0.0.0\<close>. Without \<^verbatim>\<open>PORT\<close> its port is 8000. With \<^verbatim>\<open>PORT\<close>
  a decimal numeral (one to 640 digits \<^verbatim>\<open>0\<close> to \<^verbatim>\<open>9\<close>, possibly between
  whitespace that \<^verbatim>\<open>int()\<close> skips) its port is the number the digits denote. In both
  cases the site is started once the bot is built and the runner's setup completed. With a
  \<^verbatim>\<open>PORT\<close> that holds a character which is neither a digit, an underscore, a sign
  nor such whitespace (\<^verbatim>\<open>\x1c\<close>, say), no site is started and \<^verbatim>\<open>main\<close>
  raises \<^verbatim>\<open>ValueError\<close>.
\<close>

theorem C3_listen_port:
  "(\<forall>h p. TCPSite_start h p \<in> set (events_of (main x a)) \<longrightarrow> h = ''0.0.0.0'')
   \<and> (environ x ''PORT'' = None \<longrightarrow>
        (\<forall>h p. TCPSite_start h p \<in> set (events_of (main x a)) \<longrightarrow> p = 8000) \<and>
        (\<forall>b. outcome_of (build_bot x a) = Returned b \<and> setup_result x = Completes \<longrightarrow>
             TCPSite_start ''0.0.0.0'' 8000 \<in> set (events_of (main x a))))
   \<and> (\<forall>ws1 ds ws2.
        environ x ''PORT'' = Some (ws1 @ ds @ ws2) \<and>
        set ws1 \<subseteq> set [CHR '' '', CHR 0x09, CHR 0x0A, CHR 0x0B, CHR 0x0C, CHR 0x0D,
                         CHR 0x85, CHR 0xA0] \<and>
        set ws2 \<subseteq> set [CHR '' '', CHR 0x09, CHR 0x0A, CHR 0x0B, CHR 0x0C, CHR 0x0D,
                         CHR 0x85, CHR 0xA0] \<and>
        set ds \<subseteq> set ''0123456789'' \<and> ds \<noteq> [] \<and> length ds \<le> 640 \<longrightarrow>
        (\<forall>h p. TCPSite_start h p \<in> set (events_of (main x a)) \<longrightarrow>
               p = int (decimal_value ds)) \<and>
        (\<forall>b. outcome_of (build_bot x a) = Returned b \<and> setup_result x = Completes \<longrightarrow>
             TCPSite_start ''0.0.0.0'' (int (decimal_value ds)) \<in> set (events_of (main x a))))
   \<and> (\<forall>s c.
        environ x ''PORT'' = Some s \<and> c \<in> set s \<and> c \<notin> set ''0123456789_+-'' \<and>
        c \<notin> set [CHR '' '', CHR 0x09, CHR 0x0A, CHR 0x0B, CHR 0x0C, CHR 0x0D,
                   CHR 0x85, CHR 0xA0] \<longrightarrow>
        (\<forall>h p. TCPSite_start h p \<notin> set (events_of (main x a))) \<and>
        (\<forall>b. outcome_of (build_bot x a) = Returned b \<longrightarrow>
             (\<exists>m. outcome_of (main x a) = Raised (Exn ValueError m))))"
proof -
  have host: "\<forall>h p. TCPSite_start h p \<in> set (events_of (main x a)) \<longrightarrow> h = ''0.0.0.0''"
    by (simp add: site_start_iff)
  have unset: "(\<forall>h p. TCPSite_start h p \<in> set (events_of (main x a)) \<longrightarrow> p = 8000) \<and>
        (\<forall>b. outcome_of (build_bot x a) = Returned b \<and> setup_result x = Completes \<longrightarrow>
             TCPSite_start ''0.0.0.0'' 8000 \<in> set (events_of (main x a)))"
    if "environ x ''PORT'' = None"
  proof -
    have "py_int (getenv_default (environ x) ''PORT'' ''8000'') = Inr 8000"
      using that by (simp add: getenv_default_def py_int_8000)
    then show ?thesis by (auto simp add: site_start_iff)
  qed
  have numeral: "(\<forall>h p. TCPSite_start h p \<in> set (events_of (main x a)) \<longrightarrow>
               p = int (decimal_value ds)) \<and>
        (\<forall>b. outcome_of (build_bot x a) = Returned b \<and> setup_result x = Completes \<longrightarrow>
             TCPSite_start ''0.0.0.0'' (int (decimal_value ds)) \<in> set (events_of (main x a)))"
    if h: "environ x ''PORT'' = Some (ws1 @ ds @ ws2) \<and>
        set ws1 \<subseteq> set [CHR '' '', CHR 0x09, CHR 0x0A, CHR 0x0B, CHR 0x0C, CHR 0x0D,
                         CHR 0x85, CHR 0xA0] \<and>
        set ws2 \<subseteq> set [CHR '' '', CHR 0x09, CHR 0x0A, CHR 0x0B, CHR 0x0C, CHR 0x0D,
                         CHR 0x85, CHR 0xA0] \<and>
        set ds \<subseteq> set ''0123456789'' \<and> ds \<noteq> [] \<and> length ds \<le> 640"
    for ws1 ds ws2
  proof -
    have "py_int (ws1 @ ds @ ws2) = Inr (int (decimal_value ds))"
      by (rule py_int_decimal) (use h in blast)+
    then have "py_int (getenv_default (environ x) ''PORT'' ''8000'') =
        Inr (int (decimal_value ds))"
      using h by (simp add: getenv_default_def)
    then show ?thesis by (auto simp add: site_start_iff)
  qed
  have malformed: "(\<forall>h p. TCPSite_start h p \<notin> set (events_of (main x a))) \<and>
        (\<forall>b. outcome_of (build_bot x a) = Returned b \<longrightarrow>
             (\<exists>m. outcome_of (main x a) = Raised (Exn ValueError m)))"
    if h: "environ x ''PORT'' = Some s \<and> c \<in> set s \<and> c \<notin> set ''0123456789_+-'' \<and>
        c \<notin> set [CHR '' '', CHR 0x09, CHR 0x0A, CHR 0x0B, CHR 0x0C, CHR 0x0D,
                   CHR 0x85, CHR 0xA0]"
    for s c
  proof -
    have c: "c \<in> set s" "\<not> is_space c" "c \<noteq> CHR ''_''" "c \<noteq> CHR ''+''" "c \<noteq> CHR ''-''"
      using h by (simp_all add: is_space_def)
    have "c \<notin> set ''0123456789''" using h by simp
    then have nd: "digit_val c = None"
      by (cases c) (auto simp add: digit_val_def)
    have "py_int s = Inl invalid_literal"
      using c(1,2) nd c(3,4,5) by (rule py_int_rejects)
    then have bad: "py_int (getenv_default (environ x) ''PORT'' ''8000'') = Inl invalid_literal"
      using h by (simp add: getenv_default_def)
    have none: "\<forall>h p. TCPSite_start h p \<notin> set (events_of (main x a))"
      using bad by (simp add: site_start_iff)
    have raised: "\<forall>b. outcome_of (build_bot x a) = Returned b \<longrightarrow>
             (\<exists>m. outcome_of (main x a) = Raised (Exn ValueError m))"
      using main_raises_port_error[OF _ bad] by (auto simp add: invalid_literal_def)
    from none raised show ?thesis by simp
  qed
  from host unset numeral malformed show ?thesis by blast
qed

theorem C3_listen_port_witness:
  "TCPSite_start ''0.0.0.0'' 8000 \<in> set (events_of (main x_ok a_ok))
   \<and> TCPSite_start ''0.0.0.0'' 8080 \<in> set (events_of (main
        (x_ok\<lparr>environ := (\<lambda>k. if k = ''PORT''
                               then Some ([CHR '' ''] @ ''8080'' @ [CHR 0x0A]) else None)\<rparr>)
        a_ok))
   \<and> TCPSite_start ''0.0.0.0'' 8087 \<notin> set (events_of (main
        (x_ok\<lparr>environ := (\<lambda>k. if k = ''PORT'' then Some (CHR 0x1C # ''8087'') else None)\<rparr>)
        a_ok))
   \<and> (\<exists>m. outcome_of (main
        (x_ok\<lparr>environ := (\<lambda>k. if k = ''PORT'' then Some (CHR 0x1C # ''8087'') else None)\<rparr>)
        a_ok) = Raised (Exn ValueError m))"
proof -
  let ?x = "x_ok\<lparr>environ := (\<lambda>k. if k = ''PORT''
                               then Some ([CHR '' ''] @ ''8080'' @ [CHR 0x0A]) else None)\<rparr>"
  let ?y = "x_ok\<lparr>environ := (\<lambda>k. if k = ''PORT'' then Some (CHR 0x1C # ''8087'') else None)\<rparr>"
  have b1: "outcome_of (build_bot x_ok a_ok) = Returned bot_ok \<and> setup_result x_ok = Completes"
    by (simp add: build_bot_returned build_reaches_session_def resolve_token_cases
          expected_kwargs_def x_ok_def a_ok_def bot_ok_def)
  have b2: "outcome_of (build_bot ?x a_ok) = Returned bot_ok \<and> setup_result ?x = Completes"
    by (simp add: build_bot_returned build_reaches_session_def resolve_token_cases
          expected_kwargs_def x_ok_def a_ok_def bot_ok_def)
  have b3: "outcome_of (build_bot ?y a_ok) = Returned bot_ok"
    by (simp add: build_bot_returned build_reaches_session_def resolve_token_cases
          expected_kwargs_def x_ok_def a_ok_def bot_ok_def)
  have n: "environ x_ok ''PORT'' = None"
    by (simp add: x_ok_def)
  have w1: "TCPSite_start ''0.0.0.0'' 8000 \<in> set (events_of (main x_ok a_ok))"
    using C3_listen_port[of x_ok a_ok, THEN conjunct2, THEN conjunct1, rule_format, OF n,
        THEN conjunct2, rule_format, OF b1] .
  have h2: "environ ?x ''PORT'' = Some ([CHR '' ''] @ ''8080'' @ [CHR 0x0A]) \<and>
        set [CHR '' ''] \<subseteq> set [CHR '' '', CHR 0x09, CHR 0x0A, CHR 0x0B, CHR 0x0C, CHR 0x0D,
                         CHR 0x85, CHR 0xA0] \<and>
        set [CHR 0x0A] \<subseteq> set [CHR '' '', CHR 0x09, CHR 0x0A, CHR 0x0B, CHR 0x0C, CHR 0x0D,
                         CHR 0x85, CHR 0xA0] \<and>
        set ''8080'' \<subseteq> set ''0123456789'' \<and> ''8080'' \<noteq> [] \<and> length ''8080'' \<le> 640"
    by simp
  have d: "int (decimal_value ''8080'') = 8080"
    by (simp add: decimal_value_def)
  have w2: "TCPSite_start ''0.0.0.0'' 8080 \<in> set (events_of (main ?x a_ok))"
    using C3_listen_port[of ?x a_ok, THEN conjunct2, THEN conjunct2, THEN conjunct1,
        rule_format, OF h2, THEN conjunct2, rule_format, OF b2]
    unfolding d .
  have h3: "environ ?y ''PORT'' = Some (CHR 0x1C # ''8087'') \<and>
        CHR 0x1C \<in> set (CHR 0x1C # ''8087'') \<and> CHR 0x1C \<notin> set ''0123456789_+-'' \<and>
        CHR 0x1C \<notin> set [CHR '' '', CHR 0x09, CHR 0x0A, CHR 0x0B, CHR 0x0C, CHR 0x0D,
                   CHR 0x85, CHR 0xA0]"
    by simp
  note t3 = C3_listen_port[of ?y a_ok, THEN conjunct2, THEN conjunct2, THEN conjunct2,
        rule_format, OF h3]
  have w3: "TCPSite_start ''0.0.0.0'' 8087 \<notin> set (events_of (main ?y a_ok))"
    using t3[THEN conjunct1, rule_format, of "''0.0.0.0''" 8087] .
  have w4: "\<exists>m. outcome_of (main ?y a_ok) = Raised (Exn ValueError m)"
    using t3[THEN conjunct2, rule_format, OF b3] .
  show ?thesis
    by (intro conjI) (rule w1 w2 w3 w4)+
qed

section \<open>The keyword arguments of the session\<close>

lemma expected_kwargs_connector:
  "((''connector'', v) \<in> set (expected_kwargs x)) =
     (v = KwConnector (TCPConnector AF_INET) \<and> TCPConnector_raises x = None \<and>
      (\<exists>ps. signature_parameters x = Inr ps \<and> ''connector'' \<in> set ps))"
  by (cases "signature_parameters x") (auto simp: expected_kwargs_def)

lemma expected_kwargs_trust_env:
  "((''trust_env'', v) \<in> set (expected_kwargs x)) =
     (v = KwBool True \<and> (\<exists>ps. signature_parameters x = Inr ps \<and> ''trust_env'' \<in> set ps))"
  by (cases "signature_parameters x") (auto simp: expected_kwargs_def)

lemma expected_kwargs_keys:
  "(k, v) \<in> set (expected_kwargs x) \<Longrightarrow>
     (k = ''connector'' \<or> k = ''trust_env'') \<and>
     (\<exists>ps. signature_parameters x = Inr ps \<and> k \<in> set ps)"
  by (cases "signature_parameters x") (auto simp: expected_kwargs_def split: if_splits)

lemma expected_kwargs_introspection_fails:
  "signature_parameters x = Inl e \<Longrightarrow> expected_kwargs x = []"
  by (simp add: expected_kwargs_def)

lemma session_init_in_build_bot:
  "(AiohttpSession_init kw \<in> set (events_of (build_bot x a))) =
     (build_reaches_session x a \<and> kw = expected_kwargs x)"
  by (auto simp: build_bot_events build_reaches_session_def)

text \<open>
  Claim C7. The session is constructed with exactly the optional settings that the installed
  \<^verbatim>\<open>AiohttpSession.__init__\<close> names: in every \<^verbatim>\<open>AiohttpSession(**kwargs)\<close>
  call that \<^verbatim>\<open>_build_bot\<close> makes, and in the session of the bot it returns,
  \<^verbatim>\<open>connector\<close> is passed exactly when the connector could be constructed and
  \<^verbatim>\<open>connector\<close> is a parameter (and it is then the \<^verbatim>\<open>AF_INET\<close> connector),
  \<^verbatim>\<open>trust_env\<close> exactly when \<^verbatim>\<open>trust_env\<close> is a parameter (and it is then
  \<^verbatim>\<open>True\<close>), no other key is passed, every key passed is a parameter, and nothing
  is passed when introspection raised. The call is made whenever a token was found and feature
  detection raised nothing that \<^verbatim>\<open>except Exception\<close> lets through.
\<close>

theorem C7_session_kwargs:
  "(\<forall>kw. AiohttpSession_init kw \<in> set (events_of (build_bot x a)) \<or>
          (\<exists>t m. outcome_of (build_bot x a) = Returned (Bot t m (AiohttpSession kw))) \<longrightarrow>
      (\<forall>v. ((''connector'', v) \<in> set kw) =
             (v = KwConnector (TCPConnector AF_INET) \<and> TCPConnector_raises x = None \<and>
              (\<exists>ps. signature_parameters x = Inr ps \<and> ''connector'' \<in> set ps))) \<and>
      (\<forall>v. ((''trust_env'', v) \<in> set kw) =
             (v = KwBool True \<and>
              (\<exists>ps. signature_parameters x = Inr ps \<and> ''trust_env'' \<in> set ps))) \<and>
      (\<forall>k v. (k, v) \<in> set kw \<longrightarrow>
             (k = ''connector'' \<or> k = ''trust_env'') \<and>
             (\<exists>ps. signature_parameters x = Inr ps \<and> k \<in> set ps)) \<and>
      (\<forall>e. signature_parameters x = Inl e \<longrightarrow> kw = []) \<and>
      kw = expected_kwargs x)
   \<and> (build_reaches_session x a \<longrightarrow>
        AiohttpSession_init (expected_kwargs x) \<in> set (events_of (build_bot x a)))"
proof (rule conjI)
  show "build_reaches_session x a \<longrightarrow>
        AiohttpSession_init (expected_kwargs x) \<in> set (events_of (build_bot x a))"
    by (simp add: session_init_in_build_bot)
next
  show "\<forall>kw. AiohttpSession_init kw \<in> set (events_of (build_bot x a)) \<or>
          (\<exists>t m. outcome_of (build_bot x a) = Returned (Bot t m (AiohttpSession kw))) \<longrightarrow>
      (\<forall>v. ((''connector'', v) \<in> set kw) =
             (v = KwConnector (TCPConnector AF_INET) \<and> TCPConnector_raises x = None \<and>
              (\<exists>ps. signature_parameters x = Inr ps \<and> ''connector'' \<in> set ps))) \<and>
      (\<forall>v. ((''trust_env'', v) \<in> set kw) =
             (v = KwBool True \<and>
              (\<exists>ps. signature_parameters x = Inr ps \<and> ''trust_env'' \<in> set ps))) \<and>
      (\<forall>k v. (k, v) \<in> set kw \<longrightarrow>
             (k = ''connector'' \<or> k = ''trust_env'') \<and>
             (\<exists>ps. signature_parameters x = Inr ps \<and> k \<in> set ps)) \<and>
      (\<forall>e. signature_parameters x = Inl e \<longrightarrow> kw = []) \<and>
      kw = expected_kwargs x"
  proof (rule allI, rule impI)
    fix kw
    assume run: "AiohttpSession_init kw \<in> set (events_of (build_bot x a)) \<or>
        (\<exists>t m. outcome_of (build_bot x a) = Returned (Bot t m (AiohttpSession kw)))"
    then have kw: "kw = expected_kwargs x"
      by (auto simp: session_init_in_build_bot build_bot_returned)
    have f1: "\<forall>v. ((''connector'', v) \<in> set kw) =
               (v = KwConnector (TCPConnector AF_INET) \<and> TCPConnector_raises x = None \<and>
                (\<exists>ps. signature_parameters x = Inr ps \<and> ''connector'' \<in> set ps))"
      unfolding kw by (simp only: expected_kwargs_connector) simp
    have f2: "\<forall>v. ((''trust_env'', v) \<in> set kw) =
               (v = KwBool True \<and>
                (\<exists>ps. signature_parameters x = Inr ps \<and> ''trust_env'' \<in> set ps))"
      unfolding kw by (simp only: expected_kwargs_trust_env) simp
    have f3: "\<forall>k v. (k, v) \<in> set kw \<longrightarrow>
               (k = ''connector'' \<or> k = ''trust_env'') \<and>
               (\<exists>ps. signature_parameters x = Inr ps \<and> k \<in> set ps)"
      unfolding kw using expected_kwargs_keys[of _ _ x] by blast
    have f4: "\<forall>e. signature_parameters x = Inl e \<longrightarrow> kw = []"
      unfolding kw using expected_kwargs_introspection_fails[of x] by blast
    show "(\<forall>v. ((''connector'', v) \<in> set kw) =
             (v = KwConnector (TCPConnector AF_INET) \<and> TCPConnector_raises x = None \<and>
              (\<exists>ps. signature_parameters x = Inr ps \<and> ''connector'' \<in> set ps))) \<and>
      (\<forall>v. ((''trust_env'', v) \<in> set kw) =
             (v = KwBool True \<and>
              (\<exists>ps. signature_parameters x = Inr ps \<and> ''trust_env'' \<in> set ps))) \<and>
      (\<forall>k v. (k, v) \<in> set kw \<longrightarrow>
             (k = ''connector'' \<or> k = ''trust_env'') \<and>
             (\<exists>ps. signature_parameters x = Inr ps \<and> k \<in> set ps)) \<and>
      (\<forall>e. signature_parameters x = Inl e \<longrightarrow> kw = []) \<and>
      kw = expected_kwargs x"
      using f1 f2 f3 f4 kw by (intro conjI)
  qed
qed

theorem C7_session_kwargs_witness:
  "AiohttpSession_init [(''connector'', KwConnector (TCPConnector AF_INET)),
                        (''trust_env'', KwBool True)]
     \<in> set (events_of (build_bot x_ok a_ok))
   \<and> TCPConnector_raises x_ok = None
   \<and> AiohttpSession_init []
     \<in> set (events_of (build_bot
          (x_ok\<lparr>signature_parameters := Inl (Exn TypeError ''no signature found'')\<rparr>) a_ok))
   \<and> AiohttpSession_init [(''trust_env'', KwBool True)]
     \<in> set (events_of (build_bot
          (x_ok\<lparr>TCPConnector_raises := Some (Exn RuntimeError ''no running event loop'')\<rparr>)
          a_ok))
   \<and> AiohttpSession_init []
     \<in> set (events_of (build_bot
          (x_ok\<lparr>signature_parameters := Inr [''self'', ''proxy'', ''limit'', ''kwargs'']\<rparr>)
          a_ok))"
proof -
  let ?x2 = "x_ok\<lparr>signature_parameters := Inl (Exn TypeError ''no signature found'')\<rparr>"
  let ?x3 = "x_ok\<lparr>TCPConnector_raises := Some (Exn RuntimeError ''no running event loop'')\<rparr>"
  let ?x4 = "x_ok\<lparr>signature_parameters := Inr [''self'', ''proxy'', ''limit'', ''kwargs'']\<rparr>"
  have r: "build_reaches_session x_ok a_ok" "build_reaches_session ?x2 a_ok"
      "build_reaches_session ?x3 a_ok" "build_reaches_session ?x4 a_ok"
    by (simp_all add: build_reaches_session_def resolve_token_cases x_ok_def a_ok_def)
  have e1: "expected_kwargs x_ok =
      [(''connector'', KwConnector (TCPConnector AF_INET)), (''trust_env'', KwBool True)]"
    by (simp add: expected_kwargs_def x_ok_def)
  have e2: "expected_kwargs ?x2 = []"
    by (simp add: expected_kwargs_def x_ok_def)
  have e3: "expected_kwargs ?x3 = [(''trust_env'', KwBool True)]"
    by (simp add: expected_kwargs_def x_ok_def)
  have e4: "expected_kwargs ?x4 = []"
    by (simp add: expected_kwargs_def x_ok_def)
  have w1: "AiohttpSession_init [(''connector'', KwConnector (TCPConnector AF_INET)),
                        (''trust_env'', KwBool True)]
     \<in> set (events_of (build_bot x_ok a_ok))"
    using C7_session_kwargs[of x_ok a_ok, THEN conjunct2] r(1) by (simp add: e1)
  have w1': "TCPConnector_raises x_ok = None"
    using C7_session_kwargs[of x_ok a_ok, THEN conjunct1, rule_format, OF disjI1, OF w1,
        THEN conjunct1, rule_format, of "KwConnector (TCPConnector AF_INET)"]
    by simp
  have w2: "AiohttpSession_init [] \<in> set (events_of (build_bot ?x2 a_ok))"
    using C7_session_kwargs[of ?x2 a_ok, THEN conjunct2] r(2) by (simp add: e2)
  have w3: "AiohttpSession_init [(''trust_env'', KwBool True)]
      \<in> set (events_of (build_bot ?x3 a_ok))"
    using C7_session_kwargs[of ?x3 a_ok, THEN conjunct2] r(3) by (simp add: e3)
  have w4: "AiohttpSession_init [] \<in> set (events_of (build_bot ?x4 a_ok))"
    using C7_session_kwargs[of ?x4 a_ok, THEN conjunct2] r(4) by (simp add: e4)
  show ?thesis
    by (intro conjI) (rule w1 w1' w2 w3 w4)+
qed

section \<open>Polling and the teardown of the listener\<close>

lemmas run_defs =
  main_def then_do_def build_bot_def build_connector_def build_kwargs_def resolve_token_def
  py_or_def getenv_def getenv_default_def except_Exception_def try_finally_def call_def
  await_def return_def py_raise_def missing_token_def start_health_def setattr_bot_def
  patch_bot_def call_include_router_def setattr_flag_def include_router_once_def
  call_register_def register_startup_def call_start_polling_def cleanup_def
  poll_and_cleanup_def py_int_def strip_def is_space_def digit_val_def invalid_literal_def
  exceeds_limit_def Let_def

text \<open>The run in which everything succeeds.\<close>

lemma main_x_ok:
  "main x_ok a_ok =
     (Returned (),
      a_ok\<lparr>attr_bot := Some bot_ok, attr_KOYEB_ROUTER_INCLUDED := Some (PyBool True)\<rparr>,
      [TCPConnector_init AF_INET,
       AiohttpSession_init [(''connector'', KwConnector (TCPConnector AF_INET)),
                            (''trust_env'', KwBool True)],
       Bot_init (PyStr ''123:abc'') ''HTML''
         (AiohttpSession [(''connector'', KwConnector (TCPConnector AF_INET)),
                          (''trust_env'', KwBool True)]),
       AppRunner_setup health_app,
       TCPSite_start ''0.0.0.0'' 8000,
       Include_router,
       Startup_register,
       Start_polling bot_ok,
       Runner_cleanup])"
  by (simp add: run_defs x_ok_def a_ok_def bot_ok_def)

lemma start_health_returned:
  assumes "outcome_of (start_health x a) = Returned ()"
  shows "\<exists>p. events_of (start_health x a) =
               [AppRunner_setup health_app, TCPSite_start ''0.0.0.0'' p] \<and>
             setup_result x = Completes \<and> start_result x = Completes"
  using assms
  by (cases "py_int (getenv_default (environ x) ''PORT'' ''8000'')";
      cases "setup_result x"; cases "start_result x")
     (simp_all add: start_health_simps)

lemma no_cleanup_before_polling:
  "Runner_cleanup \<notin> set (events_of (build_bot x a))"
  "Runner_cleanup \<notin> set (events_of (start_health x a))"
  "Runner_cleanup \<notin> set (before_polling x b a)"
  by (simp_all add: build_bot_events start_health_simps before_polling_def
        include_router_once_events register_startup_simps split: sum.splits)

lemma main_polling_trace:
  assumes "Start_polling b \<in> set (events_of (main x a))"
  shows "\<exists>pre mid p.
           events_of (main x a) =
             pre @ [TCPSite_start ''0.0.0.0'' p] @ mid @
             Start_polling b #
               (if start_polling_result x = Never_completes then [] else [Runner_cleanup]) \<and>
           Runner_cleanup \<notin> set pre \<and> Runner_cleanup \<notin> set mid \<and>
           setup_result x = Completes \<and> start_result x = Completes"
proof -
  from main_reaches_polling[OF assms]
  have h: "outcome_of (start_health x a) = Returned ()" and dp: "attr_dp a"
    and ev: "events_of (main x a) =
           events_of (build_bot x a) @ events_of (start_health x a) @
           before_polling x b a @ events_of (poll_and_cleanup x b a)"
    by simp_all
  from start_health_returned[OF h] obtain p where
    p: "events_of (start_health x a) =
          [AppRunner_setup health_app, TCPSite_start ''0.0.0.0'' p]"
      "setup_result x = Completes" "start_result x = Completes"
    by blast
  have "events_of (main x a) =
      (events_of (build_bot x a) @ [AppRunner_setup health_app]) @
      [TCPSite_start ''0.0.0.0'' p] @ before_polling x b a @
      Start_polling b #
        (if start_polling_result x = Never_completes then [] else [Runner_cleanup])"
    using ev p(1) dp by (simp add: poll_and_cleanup_simps)
  moreover have "Runner_cleanup \<notin> set (events_of (build_bot x a) @ [AppRunner_setup health_app])"
    by (simp add: no_cleanup_before_polling)
  moreover have "Runner_cleanup \<notin> set (before_polling x b a)"
    by (simp add: no_cleanup_before_polling)
  ultimately show ?thesis
    using p(2,3) by blast
qed

text \<open>
  Claim C8. In every run of \<^verbatim>\<open>main\<close> that hands control to the dispatcher's polling
  loop, the health site was started (and its start had completed) before that call, and no
  cleanup of the runner happened before it; and whenever the polling call ends, by returning
  or by raising, the very next call is the cleanup of the health runner, which is the last
  call of the run. While the polling call has not ended, the runner is not cleaned up.
\<close>

theorem C8_listener_around_polling:
  assumes "Start_polling b \<in> set (events_of (main x a))"
  shows "(\<exists>pre mid post p.
            events_of (main x a) =
              pre @ [TCPSite_start ''0.0.0.0'' p] @ mid @ [Start_polling b] @ post \<and>
            Runner_cleanup \<notin> set pre \<and> Runner_cleanup \<notin> set mid \<and>
            setup_result x = Completes \<and> start_result x = Completes)
       \<and> (start_polling_result x = Completes \<longrightarrow>
            (\<exists>pre. events_of (main x a) = pre @ [Start_polling b, Runner_cleanup]))
       \<and> (start_polling_result x \<noteq> Never_completes \<longrightarrow>
            (\<exists>pre. events_of (main x a) = pre @ [Start_polling b, Runner_cleanup]))
       \<and> (start_polling_result x = Never_completes \<longrightarrow>
            Runner_cleanup \<notin> set (events_of (main x a)))"
proof -
  from main_polling_trace[OF assms] obtain pre mid p where
    ev: "events_of (main x a) =
             pre @ [TCPSite_start ''0.0.0.0'' p] @ mid @
             Start_polling b #
               (if start_polling_result x = Never_completes then [] else [Runner_cleanup])"
    and nc: "Runner_cleanup \<notin> set pre" "Runner_cleanup \<notin> set mid"
    and ok: "setup_result x = Completes" "start_result x = Completes"
    by blast
  have first: "\<exists>pre mid post p.
            events_of (main x a) =
              pre @ [TCPSite_start ''0.0.0.0'' p] @ mid @ [Start_polling b] @ post \<and>
            Runner_cleanup \<notin> set pre \<and> Runner_cleanup \<notin> set mid \<and>
            setup_result x = Completes \<and> start_result x = Completes"
    using ev nc ok by auto
  have ends: "\<exists>pre. events_of (main x a) = pre @ [Start_polling b, Runner_cleanup]"
    if "start_polling_result x \<noteq> Never_completes"
  proof -
    have "events_of (main x a) =
        (pre @ [TCPSite_start ''0.0.0.0'' p] @ mid) @ [Start_polling b, Runner_cleanup]"
      using ev that by simp
    then show ?thesis by blast
  qed
  have never: "Runner_cleanup \<notin> set (events_of (main x a))"
    if "start_polling_result x = Never_completes"
    using ev nc that by simp
  from first ends never show ?thesis by simp
qed

theorem C8_listener_around_polling_witness:
  "Start_polling bot_ok \<in> set (events_of (main x_ok a_ok))
   \<and> start_polling_result x_ok = Completes
   \<and> (\<exists>pre. events_of (main x_ok a_ok) = pre @ [Start_polling bot_ok, Runner_cleanup])
   \<and> (\<exists>pre mid post p.
        events_of (main x_ok a_ok) =
          pre @ [TCPSite_start ''0.0.0.0'' p] @ mid @ [Start_polling bot_ok] @ post)
   \<and> Start_polling bot_ok \<in>
       set (events_of (main (x_ok\<lparr>start_polling_result := Never_completes\<rparr>) a_ok))
   \<and> Runner_cleanup \<notin>
       set (events_of (main (x_ok\<lparr>start_polling_result := Never_completes\<rparr>) a_ok))"
proof -
  let ?x = "x_ok\<lparr>start_polling_result := Never_completes\<rparr>"
  have p1: "Start_polling bot_ok \<in> set (events_of (main x_ok a_ok))"
    by (simp add: main_x_ok)
  have c1: "start_polling_result x_ok = Completes"
    by (simp add: x_ok_def)
  have p2: "Start_polling bot_ok \<in> set (events_of (main ?x a_ok))"
    by (simp add: run_defs x_ok_def a_ok_def bot_ok_def)
  have c2: "start_polling_result ?x = Never_completes"
    by simp
  note t1 = C8_listener_around_polling[OF p1]
  note t2 = C8_listener_around_polling[OF p2]
  have w1: "\<exists>pre. events_of (main x_ok a_ok) = pre @ [Start_polling bot_ok, Runner_cleanup]"
    using t1 c1 by blast
  have w2: "\<exists>pre mid post p.
        events_of (main x_ok a_ok) =
          pre @ [TCPSite_start ''0.0.0.0'' p] @ mid @ [Start_polling bot_ok] @ post"
    using t1 by blast
  have w3: "Runner_cleanup \<notin> set (events_of (main ?x a_ok))"
    using t2 c2 by blast
  show ?thesis
    by (intro conjI) (rule p1 c1 w1 w2 p2 w3)+
qed

text \<open>
  Claim C10 says that after the cleanup the polling exception is still propagated out of
  \<^verbatim>\<open>main\<close>. The finaliser's handler (line 118) is \<^verbatim>\<open>except Exception\<close>:
  here the polling call raises \<^verbatim>\<open>OSError\<close>, the cleanup runs and is cancelled
  (\<^verbatim>\<open>asyncio.CancelledError\<close>), and \<^verbatim>\<open>main\<close> raises the
  \<^verbatim>\<open>CancelledError\<close>, not the \<^verbatim>\<open>OSError\<close>.
\<close>

theorem C10_cleanup_exception_replaces_polling_exception:
  "start_polling_result
       (x_ok\<lparr>start_polling_result := Fails (Exn OSError ''network is unreachable''),
             cleanup_result := Fails (Exn CancelledError [])\<rparr>) =
     Fails (Exn OSError ''network is unreachable'')
   \<and> events_of (main
       (x_ok\<lparr>start_polling_result := Fails (Exn OSError ''network is unreachable''),
             cleanup_result := Fails (Exn CancelledError [])\<rparr>) a_ok) =
     [TCPConnector_init AF_INET,
      AiohttpSession_init [(''connector'', KwConnector (TCPConnector AF_INET)),
                           (''trust_env'', KwBool True)],
      Bot_init (PyStr ''123:abc'') ''HTML''
        (AiohttpSession [(''connector'', KwConnector (TCPConnector AF_INET)),
                         (''trust_env'', KwBool True)]),
      AppRunner_setup health_app,
      TCPSite_start ''0.0.0.0'' 8000,
      Include_router,
      Startup_register,
      Start_polling bot_ok,
      Runner_cleanup]
   \<and> outcome_of (main
       (x_ok\<lparr>start_polling_result := Fails (Exn OSError ''network is unreachable''),
             cleanup_result := Fails (Exn CancelledError [])\<rparr>) a_ok) =
     Raised (Exn CancelledError [])
   \<and> outcome_of (main
       (x_ok\<lparr>start_polling_result := Fails (Exn OSError ''network is unreachable''),
             cleanup_result := Fails (Exn CancelledError [])\<rparr>) a_ok) \<noteq>
     Raised (Exn OSError ''network is unreachable'')"
  by (simp add: run_defs outcome_of_def events_of_def x_ok_def a_ok_def bot_ok_def)

text \<open>
  Claim C10, amended. The cleanup of the health runner runs when the polling call raises, not
  only when it returns: in a run whose polling call raises \<open>e\<close> (any exception, also one
  that derives from \<^verbatim>\<open>BaseException\<close> only), the call after it is the cleanup, and
  the run ends there. When the cleanup completes, or raises an \<^verbatim>\<open>Exception\<close> (which
  line 118 swallows), \<open>e\<close> is what \<^verbatim>\<open>main\<close> raises. When the cleanup raises an
  exception that is not an \<^verbatim>\<open>Exception\<close>, that exception is what \<^verbatim>\<open>main\<close>
  raises instead of \<open>e\<close>.
\<close>

theorem C10_cleanup_when_polling_raises:
  assumes "Start_polling b \<in> set (events_of (main x a))"
    and "start_polling_result x = Fails e"
  shows "(\<exists>pre. events_of (main x a) = pre @ [Start_polling b, Runner_cleanup])
       \<and> (cleanup_result x = Completes \<or>
            (\<exists>e'. cleanup_result x = Fails e' \<and> is_Exception e')
          \<longrightarrow> outcome_of (main x a) = Raised e)
       \<and> (\<forall>e'. cleanup_result x = Fails e' \<and> \<not> is_Exception e'
          \<longrightarrow> outcome_of (main x a) = Raised e')"
proof -
  from main_polling_trace[OF assms(1)] obtain pre mid p where
    ev: "events_of (main x a) =
             pre @ [TCPSite_start ''0.0.0.0'' p] @ mid @
             Start_polling b #
               (if start_polling_result x = Never_completes then [] else [Runner_cleanup])"
    by blast
  have "events_of (main x a) =
      (pre @ [TCPSite_start ''0.0.0.0'' p] @ mid) @ [Start_polling b, Runner_cleanup]"
    using ev assms(2) by simp
  then have trace: "\<exists>pre. events_of (main x a) = pre @ [Start_polling b, Runner_cleanup]"
    by blast
  from main_reaches_polling[OF assms(1)]
  have dp: "attr_dp a"
    and out: "outcome_of (main x a) = outcome_of (poll_and_cleanup x b a)"
    by simp_all
  have polled: "outcome_of (call_start_polling x b a) = Raised e"
    using dp assms(2) by (simp add: call_start_polling_simps)
  have propagated: "outcome_of (main x a) = Raised e"
    if c: "cleanup_result x = Completes \<or>
           (\<exists>e'. cleanup_result x = Fails e' \<and> is_Exception e')"
    using c out polled by (auto simp add: poll_and_cleanup_outcome)
  have replaced: "outcome_of (main x a) = Raised e'"
    if c: "cleanup_result x = Fails e' \<and> \<not> is_Exception e'" for e'
    using c out polled by (simp add: poll_and_cleanup_outcome)
  from trace propagated replaced show ?thesis by blast
qed

theorem C10_cleanup_when_polling_raises_witness:
  "Start_polling bot_ok \<in> set (events_of (main
       (x_ok\<lparr>start_polling_result := Fails (Exn OSError ''network is unreachable'')\<rparr>) a_ok))
   \<and> (\<exists>pre. events_of (main
         (x_ok\<lparr>start_polling_result := Fails (Exn OSError ''network is unreachable'')\<rparr>) a_ok)
        = pre @ [Start_polling bot_ok, Runner_cleanup])
   \<and> outcome_of (main
       (x_ok\<lparr>start_polling_result := Fails (Exn OSError ''network is unreachable'')\<rparr>) a_ok)
      = Raised (Exn OSError ''network is unreachable'')
   \<and> outcome_of (main
       (x_ok\<lparr>start_polling_result := Fails (Exn KeyboardInterrupt []),
             cleanup_result := Fails (Exn RuntimeError ''runner is closed'')\<rparr>) a_ok)
      = Raised (Exn KeyboardInterrupt [])
   \<and> outcome_of (main
       (x_ok\<lparr>start_polling_result := Fails (Exn OSError ''network is unreachable''),
             cleanup_result := Fails (Exn SystemExit [])\<rparr>) a_ok)
      = Raised (Exn SystemExit [])"
proof -
  let ?x = "x_ok\<lparr>start_polling_result := Fails (Exn OSError ''network is unreachable'')\<rparr>"
  let ?y = "x_ok\<lparr>start_polling_result := Fails (Exn KeyboardInterrupt []),
             cleanup_result := Fails (Exn RuntimeError ''runner is closed'')\<rparr>"
  let ?z = "x_ok\<lparr>start_polling_result := Fails (Exn OSError ''network is unreachable''),
             cleanup_result := Fails (Exn SystemExit [])\<rparr>"
  have p1: "Start_polling bot_ok \<in> set (events_of (main ?x a_ok))"
    by (simp add: run_defs x_ok_def a_ok_def bot_ok_def)
  have p2: "Start_polling bot_ok \<in> set (events_of (main ?y a_ok))"
    by (simp add: run_defs x_ok_def a_ok_def bot_ok_def)
  have p3: "Start_polling bot_ok \<in> set (events_of (main ?z a_ok))"
    by (simp add: run_defs x_ok_def a_ok_def bot_ok_def)
  have f1: "start_polling_result ?x = Fails (Exn OSError ''network is unreachable'')"
    and c1: "cleanup_result ?x = Completes"
    by (simp_all add: x_ok_def)
  have f2: "start_polling_result ?y = Fails (Exn KeyboardInterrupt [])"
    and c2: "cleanup_result ?y = Fails (Exn RuntimeError ''runner is closed'') \<and>
             is_Exception (Exn RuntimeError ''runner is closed'')"
    by simp_all
  have f3: "start_polling_result ?z = Fails (Exn OSError ''network is unreachable'')"
    and c3: "cleanup_result ?z = Fails (Exn SystemExit []) \<and> \<not> is_Exception (Exn SystemExit [])"
    by simp_all
  note t1 = C10_cleanup_when_polling_raises[OF p1 f1]
  note t2 = C10_cleanup_when_polling_raises[OF p2 f2]
  note t3 = C10_cleanup_when_polling_raises[OF p3 f3]
  have w1: "\<exists>pre. events_of (main ?x a_ok) = pre @ [Start_polling bot_ok, Runner_cleanup]"
    using t1 by blast
  have w2: "outcome_of (main ?x a_ok) = Raised (Exn OSError ''network is unreachable'')"
    using t1 c1 by blast
  have w3: "outcome_of (main ?y a_ok) = Raised (Exn KeyboardInterrupt [])"
    using t2 c2 by blast
  have w4: "outcome_of (main ?z a_ok) = Raised (Exn SystemExit [])"
    using t3 c3 by blast
  show ?thesis
    by (intro conjI) (rule p1 w1 w2 w3 w4)+
qed

section \<open>Invoking \<^verbatim>\<open>main\<close> more than once\<close>

lemma include_router_in_main:
  "count_list (events_of (main x a)) Include_router =
     (case outcome_of (build_bot x a) of
        Returned b \<Rightarrow>
          (if outcome_of (start_health x a) = Returned () \<and>
              outcome_of (patch_bot x b a) = Returned () \<and>
              \<not> flag_set a \<and> attr_dp a \<and> attr_router a
           then 1 else 0)
      | Raised e \<Rightarrow> 0
      | Blocked \<Rightarrow> 0)"
  by (cases "outcome_of (build_bot x a)")
     (simp_all add: main_events build_bot_events start_health_simps
        include_router_once_events register_startup_simps poll_and_cleanup_simps
        patch_bot_attrs include_router_once_attrs
      split: sum.splits)

lemma main_keeps_flag: "flag_set a \<Longrightarrow> flag_set (state_of (main x a))"
  by (cases "outcome_of (build_bot x a)")
     (simp_all add: main_state patch_bot_attrs include_router_once_state)

lemma main_skips_when_flag_set:
  "flag_set a \<Longrightarrow> count_list (events_of (main x a)) Include_router = 0"
  by (simp add: include_router_in_main split: outcome.splits)

lemma main_runs_skip_when_flag_set:
  "flag_set a \<Longrightarrow>
     count_list (snd (main_runs xs a)) Include_router = 0 \<and> flag_set (fst (main_runs xs a))"
proof (induction xs arbitrary: a)
  case Nil
  then show ?case by simp
next
  case (Cons x xs)
  obtain r a' evs where m: "main x a = (r, a', evs)"
    by (cases "main x a" rule: prod_cases3)
  have "flag_set a'" "count_list evs Include_router = 0"
    using main_keeps_flag[OF Cons.prems, of x] main_skips_when_flag_set[OF Cons.prems, of x] m
    by simp_all
  with Cons.IH[of a'] m show ?case
    by (auto split: prod.splits)
qed

text \<open>A second invocation, after the run in which everything succeeded.\<close>

lemma main_x_ok_again:
  "main x_ok (a_ok\<lparr>attr_bot := Some bot_ok, attr_KOYEB_ROUTER_INCLUDED := Some (PyBool True)\<rparr>) =
     (Returned (),
      a_ok\<lparr>attr_bot := Some bot_ok, attr_KOYEB_ROUTER_INCLUDED := Some (PyBool True)\<rparr>,
      [TCPConnector_init AF_INET,
       AiohttpSession_init [(''connector'', KwConnector (TCPConnector AF_INET)),
                            (''trust_env'', KwBool True)],
       Bot_init (PyStr ''123:abc'') ''HTML''
         (AiohttpSession [(''connector'', KwConnector (TCPConnector AF_INET)),
                          (''trust_env'', KwBool True)]),
       AppRunner_setup health_app,
       TCPSite_start ''0.0.0.0'' 8000,
       Startup_register,
       Start_polling bot_ok,
       Runner_cleanup])"
  by (simp add: run_defs x_ok_def a_ok_def bot_ok_def)

text \<open>
  Claim C5. Router inclusion occurs at most once over repeated invocations: an invocation of
  \<^verbatim>\<open>main\<close> calls \<^verbatim>\<open>app.dp.include_router(app.router)\<close> at most once; an
  invocation that finds the flag \<^verbatim>\<open>_KOYEB_ROUTER_INCLUDED\<close> set skips the call and
  leaves the flag set; so once the first invocation has set the flag, no later invocation
  (however many follow, whatever the libraries do in them) makes the call, and the call is
  made at most once in total. The first invocation does set the flag whenever it makes the call
  and neither the call raises something that \<^verbatim>\<open>except Exception\<close> lets through nor
  setting the module attribute fails.
\<close>

theorem C5_router_included_once:
  "(flag_set a \<longrightarrow>
      count_list (events_of (main x a)) Include_router = 0 \<and> flag_set (state_of (main x a)))
   \<and> count_list (events_of (main x a)) Include_router \<le> 1
   \<and> (flag_set (state_of (main x a)) \<longrightarrow>
        count_list (snd (main_runs xs (state_of (main x a)))) Include_router = 0 \<and>
        count_list (snd (main_runs (x # xs) a)) Include_router \<le> 1 \<and>
        flag_set (fst (main_runs (x # xs) a)))
   \<and> (count_list (events_of (main x a)) Include_router = 1 \<and>
        (\<forall>e. include_router_raises x = Some e \<longrightarrow> is_Exception e) \<and>
        set_flag_raises x = None \<longrightarrow>
        flag_set (state_of (main x a)))"
proof -
  obtain r a' evs where m: "main x a = (r, a', evs)"
    by (cases "main x a" rule: prod_cases3)
  have skip: "count_list (events_of (main x a)) Include_router = 0 \<and>
      flag_set (state_of (main x a))" if "flag_set a"
    using main_skips_when_flag_set[OF that, of x] main_keeps_flag[OF that, of x] by simp
  have first: "count_list (events_of (main x a)) Include_router \<le> 1"
    by (simp add: include_router_in_main split: outcome.splits)
  have later: "count_list (snd (main_runs xs (state_of (main x a)))) Include_router = 0 \<and>
      count_list (snd (main_runs (x # xs) a)) Include_router \<le> 1 \<and>
      flag_set (fst (main_runs (x # xs) a))" if f: "flag_set (state_of (main x a))"
  proof -
    have f': "flag_set a'" using f m by simp
    have l: "count_list (snd (main_runs xs a')) Include_router = 0"
        "flag_set (fst (main_runs xs a'))"
      using main_runs_skip_when_flag_set[OF f', of xs] by simp_all
    have "count_list evs Include_router \<le> 1"
      using first m by simp
    with m l show ?thesis by (auto split: prod.splits)
  qed
  have sets: "flag_set (state_of (main x a))"
    if h: "count_list (events_of (main x a)) Include_router = 1 \<and>
        (\<forall>e. include_router_raises x = Some e \<longrightarrow> is_Exception e) \<and>
        set_flag_raises x = None"
  proof -
    from h obtain b where b: "outcome_of (build_bot x a) = Returned b"
      by (cases "outcome_of (build_bot x a)") (simp_all add: include_router_in_main)
    with h have c: "outcome_of (start_health x a) = Returned ()"
        "outcome_of (patch_bot x b a) = Returned ()" "\<not> flag_set a"
      by (simp_all add: include_router_in_main split: if_splits)
    have nb: "\<not> (case include_router_raises x of None \<Rightarrow> False | Some e \<Rightarrow> \<not> is_Exception e)"
      using h by (simp split: option.splits)
    show ?thesis
      using b c h nb
      by (simp add: main_state include_router_once_state patch_bot_attrs flag_set_def)
  qed
  from skip first later sets show ?thesis by blast
qed

theorem C5_router_included_once_witness:
  "flag_set (state_of (main x_ok a_ok))
   \<and> count_list (events_of (main x_ok a_ok)) Include_router = 1
   \<and> count_list (snd (main_runs [x_ok, x_ok] (state_of (main x_ok a_ok)))) Include_router = 0
   \<and> count_list (snd (main_runs [x_ok, x_ok, x_ok] a_ok)) Include_router \<le> 1
   \<and> count_list (events_of (main x_ok (state_of (main x_ok a_ok)))) Include_router = 0"
proof -
  have one: "count_list (events_of (main x_ok a_ok)) Include_router = 1"
    by (simp add: main_x_ok)
  have benign: "(\<forall>e. include_router_raises x_ok = Some e \<longrightarrow> is_Exception e) \<and>
      set_flag_raises x_ok = None"
    by (simp add: x_ok_def)
  note t = C5_router_included_once[of a_ok x_ok "[x_ok, x_ok]"]
  have f: "flag_set (state_of (main x_ok a_ok))"
    using t one benign by blast
  have later: "count_list (snd (main_runs [x_ok, x_ok] (state_of (main x_ok a_ok))))
      Include_router = 0"
    using t f by blast
  have total: "count_list (snd (main_runs [x_ok, x_ok, x_ok] a_ok)) Include_router \<le> 1"
    using t f by blast
  have again: "count_list (events_of (main x_ok (state_of (main x_ok a_ok)))) Include_router = 0"
    using C5_router_included_once[of "state_of (main x_ok a_ok)" x_ok "[]"] f by blast
  show ?thesis
    by (intro conjI) (rule f one later total again)+
qed

section \<open>Registration of the startup hook\<close>

text \<open>
  Claim C4 says that running \<^verbatim>\<open>main\<close> twice registers the module's
  \<^verbatim>\<open>on_startup\<close> hook no more than once in total. Lines 104 to 111 read no flag:
  two invocations in which everything succeeds call
  \<^verbatim>\<open>app.dp.startup.register(app.on_startup)\<close> twice, while the router (lines 92 to
  101, which do read a flag) is included once.
\<close>

theorem C4_startup_hook_registered_twice:
  "count_list (snd (main_runs [x_ok, x_ok] a_ok)) Startup_register = 2
   \<and> count_list (snd (main_runs [x_ok, x_ok] a_ok)) Include_router = 1"
  by (simp add: main_x_ok main_x_ok_again)

section \<open>Swallowed failures\<close>

lemma guarded_blocks_return:
  assumes "\<forall>e. TCPConnector_raises x = Some e \<longrightarrow> is_Exception e"
    and "\<forall>e. signature_parameters x = Inl e \<longrightarrow> is_Exception e"
    and "\<forall>e. set_bot_raises x = Some e \<longrightarrow> is_Exception e"
    and "\<forall>e. include_router_raises x = Some e \<longrightarrow> is_Exception e"
    and "\<forall>e. set_flag_raises x = Some e \<longrightarrow> is_Exception e"
    and "\<forall>e. register_raises x = Some e \<longrightarrow> is_Exception e"
    and "\<forall>e. cleanup_result x = Fails e \<longrightarrow> is_Exception e"
    and "cleanup_result x \<noteq> Never_completes"
  shows "\<exists>c. outcome_of (build_connector x a) = Returned c"
    and "\<exists>k. outcome_of (build_kwargs x c a) = Returned k"
    and "outcome_of (patch_bot x b a) = Returned ()"
    and "outcome_of (include_router_once x a) = Returned ()"
    and "outcome_of (register_startup x a) = Returned ()"
    and "outcome_of (cleanup x a) = Returned ()"
proof -
  show "\<exists>c. outcome_of (build_connector x a) = Returned c"
    using assms(1) by (cases "TCPConnector_raises x") (simp_all add: build_connector_simps)
  show "\<exists>k. outcome_of (build_kwargs x c a) = Returned k"
    using assms(2) by (cases "signature_parameters x") (simp_all add: build_kwargs_simps)
  show "outcome_of (patch_bot x b a) = Returned ()"
    using assms(3) by (cases "set_bot_raises x") (simp_all add: patch_bot_simps)
  show "outcome_of (include_router_once x a) = Returned ()"
    using assms(4,5)
    by (cases "include_router_raises x"; cases "set_flag_raises x")
       (simp_all add: include_router_once_outcome)
  show "outcome_of (register_startup x a) = Returned ()"
    using assms(6) by (cases "register_raises x") (simp_all add: register_startup_simps)
  show "outcome_of (cleanup x a) = Returned ()"
    using assms(7,8) by (cases "cleanup_result x") (simp_all add: cleanup_simps)
qed

lemma main_returns_when_guarded_fail:
  assumes g: "\<forall>e. TCPConnector_raises x = Some e \<longrightarrow> is_Exception e"
      "\<forall>e. signature_parameters x = Inl e \<longrightarrow> is_Exception e"
      "\<forall>e. set_bot_raises x = Some e \<longrightarrow> is_Exception e"
      "\<forall>e. include_router_raises x = Some e \<longrightarrow> is_Exception e"
      "\<forall>e. set_flag_raises x = Some e \<longrightarrow> is_Exception e"
      "\<forall>e. register_raises x = Some e \<longrightarrow> is_Exception e"
      "\<forall>e. cleanup_result x = Fails e \<longrightarrow> is_Exception e"
      "cleanup_result x \<noteq> Never_completes"
    and u: "truthy (resolve_token x a)" "AiohttpSession_raises x = None" "Bot_raises x = None"
      "py_int (getenv_default (environ x) ''PORT'' ''8000'') = Inr p"
      "setup_result x = Completes" "start_result x = Completes"
      "attr_dp a" "start_polling_result x = Completes"
  shows "outcome_of (main x a) = Returned () \<and>
         (\<exists>pre b. events_of (main x a) = pre @ [Start_polling b, Runner_cleanup])"
proof -
  let ?b = "Bot (resolve_token x a) ''HTML'' (AiohttpSession (expected_kwargs x))"
  let ?a3 = "state_of (patch_bot x ?b a)"
  let ?a4 = "state_of (include_router_once x ?a3)"
  have reach: "build_reaches_session x a"
    using g(1,2) u(1)
    by (cases "TCPConnector_raises x"; cases "signature_parameters x")
       (simp_all add: build_reaches_session_def)
  have b: "outcome_of (build_bot x a) = Returned ?b"
    using reach u(2,3) by (simp add: build_bot_returned)
  have h: "outcome_of (start_health x a) = Returned ()"
    using u(4,5,6) by (simp add: start_health_simps)
  note blocks = guarded_blocks_return[OF g]
  have dp4: "attr_dp ?a4"
    using u(7) by (simp add: include_router_once_attrs patch_bot_attrs)
  have polled: "outcome_of (call_start_polling x ?b ?a4) = Returned ()"
    using dp4 u(8) by (simp add: call_start_polling_simps)
  have c: "outcome_of (poll_and_cleanup x ?b ?a4) = Returned ()"
    using polled g(7,8)
    by (cases "cleanup_result x") (simp_all add: poll_and_cleanup_outcome)
  have ev: "events_of (poll_and_cleanup x ?b ?a4) = [Start_polling ?b, Runner_cleanup]"
    using dp4 u(8) by (simp add: poll_and_cleanup_simps)
  have out: "outcome_of (main x a) = Returned ()"
    using b h blocks(3)[of ?b a] blocks(4)[of ?a3] blocks(5)[of ?a4] c
    by (simp add: main_outcome)
  have "events_of (main x a) =
      (events_of (build_bot x a) @ events_of (start_health x a) @
       events_of (include_router_once x ?a3) @ events_of (register_startup x ?a4)) @
      [Start_polling ?b, Runner_cleanup]"
    using b h blocks(3)[of ?b a] blocks(4)[of ?a3] blocks(5)[of ?a4] ev
    by (simp add: main_events)
  then have "\<exists>pre b. events_of (main x a) = pre @ [Start_polling b, Runner_cleanup]"
    by blast
  with out show ?thesis by simp
qed

text \<open>
  Claim C6 says that every exception arising during feature detection, bot substitution,
  router attachment, startup-hook registration or the teardown of the listener is swallowed.
  The handlers are \<^verbatim>\<open>except Exception\<close>: an exception that derives from
  \<^verbatim>\<open>BaseException\<close> only passes through them. Here the cleanup is cancelled
  (\<^verbatim>\<open>asyncio.CancelledError\<close>), and the construction of the connector is interrupted
  (\<^verbatim>\<open>KeyboardInterrupt\<close>): \<^verbatim>\<open>main\<close> raises either.
\<close>

theorem C6_base_exception_not_swallowed:
  "cleanup_result (x_ok\<lparr>cleanup_result := Fails (Exn CancelledError [])\<rparr>) =
     Fails (Exn CancelledError [])
   \<and> outcome_of (cleanup (x_ok\<lparr>cleanup_result := Fails (Exn CancelledError [])\<rparr>) a_ok) =
     Raised (Exn CancelledError [])
   \<and> outcome_of (main (x_ok\<lparr>cleanup_result := Fails (Exn CancelledError [])\<rparr>) a_ok) =
     Raised (Exn CancelledError [])
   \<and> outcome_of (main (x_ok\<lparr>TCPConnector_raises := Some (Exn KeyboardInterrupt [])\<rparr>) a_ok) =
     Raised (Exn KeyboardInterrupt [])"
  by (simp add: run_defs outcome_of_def x_ok_def a_ok_def)

text \<open>
  Claim C6, amended. Every exception that is an instance of \<^verbatim>\<open>Exception\<close> and
  arises during optional feature detection (connector construction, signature introspection),
  during bot substitution or router attachment on the external module, during startup-hook
  registration or during the teardown of the health listener is swallowed: each of these
  blocks returns normally, whatever the state of the external module; and when nothing else
  fails (a token is found, the session and the bot are constructed, the port is an integer,
  the listener starts, the module has a dispatcher and polling returns), \<^verbatim>\<open>main\<close>
  reaches the polling call, cleans up and returns normally.
\<close>

theorem C6_exceptions_swallowed:
  assumes "\<forall>e. TCPConnector_raises x = Some e \<longrightarrow> is_Exception e"
    and "\<forall>e. signature_parameters x = Inl e \<longrightarrow> is_Exception e"
    and "\<forall>e. set_bot_raises x = Some e \<longrightarrow> is_Exception e"
    and "\<forall>e. include_router_raises x = Some e \<longrightarrow> is_Exception e"
    and "\<forall>e. set_flag_raises x = Some e \<longrightarrow> is_Exception e"
    and "\<forall>e. register_raises x = Some e \<longrightarrow> is_Exception e"
    and "\<forall>e. cleanup_result x = Fails e \<longrightarrow> is_Exception e"
    and "cleanup_result x \<noteq> Never_completes"
  shows "(\<exists>c. outcome_of (build_connector x a) = Returned c)
       \<and> (\<exists>k. outcome_of (build_kwargs x c a) = Returned k)
       \<and> outcome_of (patch_bot x b a) = Returned ()
       \<and> outcome_of (include_router_once x a) = Returned ()
       \<and> outcome_of (register_startup x a) = Returned ()
       \<and> outcome_of (cleanup x a) = Returned ()
       \<and> (truthy (resolve_token x a) \<and> AiohttpSession_raises x = None \<and> Bot_raises x = None \<and>
          (\<exists>p. py_int (getenv_default (environ x) ''PORT'' ''8000'') = Inr p) \<and>
          setup_result x = Completes \<and> start_result x = Completes \<and>
          attr_dp a \<and> start_polling_result x = Completes
          \<longrightarrow> outcome_of (main x a) = Returned () \<and>
              (\<exists>pre b'. events_of (main x a) = pre @ [Start_polling b', Runner_cleanup]))"
proof -
  note blocks = guarded_blocks_return[OF assms]
  have whole: "outcome_of (main x a) = Returned () \<and>
      (\<exists>pre b'. events_of (main x a) = pre @ [Start_polling b', Runner_cleanup])"
    if u: "truthy (resolve_token x a) \<and> AiohttpSession_raises x = None \<and> Bot_raises x = None \<and>
          (\<exists>p. py_int (getenv_default (environ x) ''PORT'' ''8000'') = Inr p) \<and>
          setup_result x = Completes \<and> start_result x = Completes \<and>
          attr_dp a \<and> start_polling_result x = Completes"
  proof -
    from u obtain p where p: "py_int (getenv_default (environ x) ''PORT'' ''8000'') = Inr p"
      by blast
    show ?thesis
      using main_returns_when_guarded_fail[OF assms _ _ _ p, of a] u by simp
  qed
  show ?thesis
    using blocks(1)[of a] blocks(2)[of c a] blocks(3)[of b a] blocks(4)[of a] blocks(5)[of a]
      blocks(6)[of a] whole
    by simp
qed

theorem C6_exceptions_swallowed_witness:
  "outcome_of (main x_guarded_fail a_ok) = Returned ()
   \<and> (\<exists>pre b'. events_of (main x_guarded_fail a_ok) = pre @ [Start_polling b', Runner_cleanup])
   \<and> outcome_of (include_router_once x_guarded_fail a_ok) = Returned ()
   \<and> outcome_of (register_startup x_guarded_fail a_ok) = Returned ()
   \<and> outcome_of (cleanup x_guarded_fail a_ok) = Returned ()
   \<and> outcome_of (patch_bot x_guarded_fail bot_ok a_ok) = Returned ()
   \<and> outcome_of (build_connector x_guarded_fail a_ok) = Returned None
   \<and> outcome_of (build_kwargs x_guarded_fail None a_ok) = Returned []"
proof -
  have g: "\<forall>e. TCPConnector_raises x_guarded_fail = Some e \<longrightarrow> is_Exception e"
    "\<forall>e. signature_parameters x_guarded_fail = Inl e \<longrightarrow> is_Exception e"
    "\<forall>e. set_bot_raises x_guarded_fail = Some e \<longrightarrow> is_Exception e"
    "\<forall>e. include_router_raises x_guarded_fail = Some e \<longrightarrow> is_Exception e"
    "\<forall>e. set_flag_raises x_guarded_fail = Some e \<longrightarrow> is_Exception e"
    "\<forall>e. register_raises x_guarded_fail = Some e \<longrightarrow> is_Exception e"
    "\<forall>e. cleanup_result x_guarded_fail = Fails e \<longrightarrow> is_Exception e"
    "cleanup_result x_guarded_fail \<noteq> Never_completes"
    by (auto simp add: x_guarded_fail_def x_ok_def)
  have u: "truthy (resolve_token x_guarded_fail a_ok) \<and>
      AiohttpSession_raises x_guarded_fail = None \<and> Bot_raises x_guarded_fail = None \<and>
      (\<exists>p. py_int (getenv_default (environ x_guarded_fail) ''PORT'' ''8000'') = Inr p) \<and>
      setup_result x_guarded_fail = Completes \<and> start_result x_guarded_fail = Completes \<and>
      attr_dp a_ok \<and> start_polling_result x_guarded_fail = Completes"
    by (simp add: x_guarded_fail_def x_ok_def a_ok_def resolve_token_cases getenv_default_def
          py_int_8000)
  note t = C6_exceptions_swallowed[OF g, of a_ok None bot_ok]
  have w1: "outcome_of (main x_guarded_fail a_ok) = Returned ()"
    and w2: "\<exists>pre b'. events_of (main x_guarded_fail a_ok) =
               pre @ [Start_polling b', Runner_cleanup]"
    using t u by blast+
  have w3: "outcome_of (include_router_once x_guarded_fail a_ok) = Returned ()"
    and w4: "outcome_of (register_startup x_guarded_fail a_ok) = Returned ()"
    and w5: "outcome_of (cleanup x_guarded_fail a_ok) = Returned ()"
    and w6: "outcome_of (patch_bot x_guarded_fail bot_ok a_ok) = Returned ()"
    using t by blast+
  have w7: "outcome_of (build_connector x_guarded_fail a_ok) = Returned None"
    using t by (simp add: build_connector_simps x_guarded_fail_def x_ok_def)
  have w8: "outcome_of (build_kwargs x_guarded_fail None a_ok) = Returned []"
    using t by (simp add: build_kwargs_simps x_guarded_fail_def x_ok_def)
  show ?thesis
    by (intro conjI) (rule w1 w2 w3 w4 w5 w6 w7 w8)+
qed

end
